theory Spec2Isabelle
  imports Main
begin

section \<open>JavaScript values\<close>

text \<open>
  The request handed to the authentication code is an ordinary JavaScript value. The
  guards of the source (\<^verbatim>\<open>!req\<close>, \<^verbatim>\<open>typeof req !== 'object'\<close>, \<^verbatim>\<open>?.\<close>, \<^verbatim>\<open>|| null\<close>,
  \<^verbatim>\<open>!!x\<close>) look at its dynamic type, so the model keeps that type: plain data, with
  objects as property lists. Function values are left out: no property of a request is
  ever called by the code under study except \<^verbatim>\<open>startsWith\<close> and \<^verbatim>\<open>replace\<close> on the
  authorization header.
\<close>

datatype jsval =
    JUndefined
  | JNull
  | JBool bool
  | JNum int
  | JStr string
  | JObj "(string \<times> jsval) list"

datatype exn = Error string | TypeError string

text \<open>Truthiness, as \<^verbatim>\<open>!x\<close>, \<^verbatim>\<open>!!x\<close>, \<^verbatim>\<open>x || y\<close> and \<^verbatim>\<open>if (x)\<close> read it.\<close>

fun truthy :: "jsval \<Rightarrow> bool" where
  "truthy JUndefined = False"
| "truthy JNull = False"
| "truthy (JBool b) = b"
| "truthy (JNum n) = (n \<noteq> 0)"
| "truthy (JStr s) = (s \<noteq> [])"
| "truthy (JObj ps) = True"

fun typeof :: "jsval \<Rightarrow> string" where
  "typeof JUndefined = ''undefined''"
| "typeof JNull = ''object''"
| "typeof (JBool b) = ''boolean''"
| "typeof (JNum n) = ''number''"
| "typeof (JStr s) = ''string''"
| "typeof (JObj ps) = ''object''"

text \<open>
  Reading a property \<^verbatim>\<open>v.k\<close> of a value that is neither null nor undefined: an object
  gives the stored value, anything else (and a missing key) gives \<^verbatim>\<open>undefined\<close>.
\<close>

fun get_prop :: "jsval \<Rightarrow> string \<Rightarrow> jsval" where
  "get_prop (JObj ps) k = (case map_of ps k of None \<Rightarrow> JUndefined | Some v \<Rightarrow> v)"
| "get_prop v k = JUndefined"

text \<open>Optional chaining \<^verbatim>\<open>v?.k\<close>: short-circuits to \<^verbatim>\<open>undefined\<close> on null and undefined.\<close>

definition opt_chain :: "jsval \<Rightarrow> string \<Rightarrow> jsval" where
  "opt_chain v k = (if v = JUndefined \<or> v = JNull then JUndefined else get_prop v k)"

text \<open>The operator \<^verbatim>\<open>x || y\<close>.\<close>

definition js_or :: "jsval \<Rightarrow> jsval \<Rightarrow> jsval" where
  "js_or x y = (if truthy x then x else y)"

subsection \<open>Strings\<close>

text \<open>\<^verbatim>\<open>s.startsWith(p)\<close>.\<close>

definition startsWith :: "string \<Rightarrow> string \<Rightarrow> bool" where
  "startsWith s p \<longleftrightarrow> take (length p) s = p"

text \<open>
  \<^verbatim>\<open>s.replace(pat, rep)\<close> with a string pattern: the first occurrence of \<^verbatim>\<open>pat\<close>, scanning
  from the left, is replaced; a string without the pattern is returned as it is. (The only
  replacement text the source uses is the empty string, so the \<^verbatim>\<open>$\<close> patterns of the
  replacement text play no part.)
\<close>

fun replace :: "string \<Rightarrow> string \<Rightarrow> string \<Rightarrow> string" where
  "replace [] pat rep = (if pat = [] then rep else [])"
| "replace (c # cs) pat rep =
     (if startsWith (c # cs) pat then rep @ drop (length pat) (c # cs)
      else c # replace cs pat rep)"

text \<open>Decimal text of a number, as a template literal prints it.\<close>

definition digit_char :: "nat \<Rightarrow> char" where
  "digit_char d = ''0123456789'' ! d"

fun show_nat :: "nat \<Rightarrow> string" where
  "show_nat n = (if n < 10 then [digit_char n] else show_nat (n div 10) @ [digit_char (n mod 10)])"

declare show_nat.simps [simp del]

section \<open>The environment of the authentication code\<close>

text \<open>
  A row of the table \<^verbatim>\<open>user_cookies\<close>, and what a query of the database client gives back:
  either the call raises, or it returns an object with an \<^verbatim>\<open>error\<close> field (null or an
  error) and a \<^verbatim>\<open>data\<close> field (null or an array of rows).
\<close>

record row =
  record_id :: string
  cookie_string :: string
  is_verified :: bool

datatype db_response =
    DbThrows exn
  | DbResult (db_error: "string option") (db_data: "row list option")

text \<open>What a callback does when it is called: return, throw, or return a promise that rejects.\<close>

datatype outcome = Returned jsval | Thrown exn | Rejected exn

text \<open>
  The code reaches the outside world through a few operations only. They are parameters
  of the model, all acting on one outside world \<open>'w\<close> (the database, the response object,
  whatever the callbacks touch):
  \<^item> \<open>data_password\<close>: \<^verbatim>\<open>process.env.data_password\<close>, a string or undefined;
  \<^item> \<open>buffer_base64\<close>: \<^verbatim>\<open>Buffer.from(s, 'base64').toString()\<close>, which returns a string or
    raises;
  \<^item> \<open>select_eq\<close>: \<^verbatim>\<open>supabase.from('user_cookies').select().eq('cookie_string', c)\<close>;
  \<^item> \<open>insert_select\<close>: \<^verbatim>\<open>supabase.from('user_cookies').insert({is_verified: v}).select()\<close>;
  \<^item> \<open>res_setHeader\<close>: \<^verbatim>\<open>res.setHeader(name, value)\<close>, which returns or raises;
  \<^item> \<open>onSuccess\<close>, \<open>onError\<close>: the two callbacks given to \<^verbatim>\<open>ApiResponse\<close>.
\<close>

record 'w env =
  data_password :: "string option"
  buffer_base64 :: "string \<Rightarrow> exn + string"
  select_eq :: "jsval \<Rightarrow> 'w \<Rightarrow> db_response \<times> 'w"
  insert_select :: "bool \<Rightarrow> 'w \<Rightarrow> db_response \<times> 'w"
  res_setHeader :: "string \<Rightarrow> string \<Rightarrow> 'w \<Rightarrow> (exn + unit) \<times> 'w"
  onSuccess :: "jsval \<Rightarrow> string option \<Rightarrow> 'w \<Rightarrow> outcome \<times> 'w"
  onError :: "string \<Rightarrow> 'w \<Rightarrow> outcome \<times> 'w"

text \<open>
  Every call that leaves the code is recorded, in order, so that a statement such as
  "no record is created" or "the header is set before the callback runs" is a statement
  about the list of calls made.
\<close>

datatype event =
    Select jsval
  | Insert bool
  | SetHeader string string
  | OnSuccess "string option"
  | OnError string

type_synonym 'w st = "event list \<times> 'w"

definition supabase_select :: "'w env \<Rightarrow> jsval \<Rightarrow> 'w st \<Rightarrow> db_response \<times> 'w st" where
  "supabase_select e c st =
     (case st of (tr, w) \<Rightarrow>
        (case select_eq e c w of (r, w') \<Rightarrow> (r, (tr @ [Select c], w'))))"

definition supabase_insert :: "'w env \<Rightarrow> bool \<Rightarrow> 'w st \<Rightarrow> db_response \<times> 'w st" where
  "supabase_insert e v st =
     (case st of (tr, w) \<Rightarrow>
        (case insert_select e v w of (r, w') \<Rightarrow> (r, (tr @ [Insert v], w'))))"

definition call_setHeader :: "'w env \<Rightarrow> string \<Rightarrow> string \<Rightarrow> 'w st \<Rightarrow> (exn + unit) \<times> 'w st" where
  "call_setHeader e name val st =
     (case st of (tr, w) \<Rightarrow>
        (case res_setHeader e name val w of (r, w') \<Rightarrow> (r, (tr @ [SetHeader name val], w'))))"

definition call_onSuccess :: "'w env \<Rightarrow> jsval \<Rightarrow> string option \<Rightarrow> 'w st \<Rightarrow> outcome \<times> 'w st" where
  "call_onSuccess e rq tok st =
     (case st of (tr, w) \<Rightarrow>
        (case onSuccess e rq tok w of (r, w') \<Rightarrow> (r, (tr @ [OnSuccess tok], w'))))"

definition call_onError :: "'w env \<Rightarrow> string \<Rightarrow> 'w st \<Rightarrow> outcome \<times> 'w st" where
  "call_onError e reason_text st =
     (case st of (tr, w) \<Rightarrow>
        (case onError e reason_text w of (r, w') \<Rightarrow> (r, (tr @ [OnError reason_text], w'))))"

section \<open>The class Auth\<close>

record auth =
  req :: jsval
  authHeader :: jsval
  sessionCookie :: jsval

text \<open>The constructor: the guard on \<^verbatim>\<open>req\<close>, then the two extractions.\<close>

definition Auth_constructor :: "jsval \<Rightarrow> exn + auth" where
  "Auth_constructor rq =
     (if \<not> truthy rq \<or> typeof rq \<noteq> ''object''
      then Inl (Error ''Auth constructor requires a valid request object'')
      else Inr \<lparr> req = rq,
                 authHeader = js_or (opt_chain (get_prop rq ''headers'') ''authorization'') JNull,
                 sessionCookie = js_or (opt_chain (get_prop rq ''cookies'') ''__Host-session'') JNull \<rparr>)"

definition hasAuthHeader :: "auth \<Rightarrow> bool" where
  "hasAuthHeader a = truthy (authHeader a)"

definition hasCookie :: "auth \<Rightarrow> bool" where
  "hasCookie a = truthy (sessionCookie a)"

text \<open>
  \<^verbatim>\<open>#authHeaderPasswordMatch\<close>. The test \<^verbatim>\<open>!this.#authHeader?.startsWith('Basic ')\<close> stands
  before the \<^verbatim>\<open>try\<close>: on null and undefined the chain gives undefined, on a string it
  calls \<^verbatim>\<open>startsWith\<close>, and on any other value it calls a method that does not exist,
  which raises a TypeError. Inside the \<^verbatim>\<open>try\<close>, an exception of the decoder is caught
  and the answer is false; \<^verbatim>\<open>===\<close> against an undefined password is false.
\<close>

definition authHeaderPasswordMatch :: "'w env \<Rightarrow> auth \<Rightarrow> exn + bool" where
  "authHeaderPasswordMatch e a =
     (case authHeader a of
        JUndefined \<Rightarrow> Inr False
      | JNull \<Rightarrow> Inr False
      | JStr s \<Rightarrow>
          (if \<not> startsWith s ''Basic '' then Inr False
           else
             (let encodedPassword = replace s ''Basic '' [];
                  expectedPassword = data_password e
              in case buffer_base64 e encodedPassword of
                   Inl error \<Rightarrow> Inr False
                 | Inr decodedPassword \<Rightarrow> Inr (Some decodedPassword = expectedPassword)))
      | _ \<Rightarrow> Inl (TypeError ''this.#authHeader?.startsWith is not a function''))"

record cookie_check =
  found :: bool
  check_verified :: bool
  check_id :: "string option"

definition not_found :: cookie_check where
  "not_found = \<lparr> found = False, check_verified = False, check_id = None \<rparr>"

text \<open>
  \<^verbatim>\<open>#isCookieVerified\<close>. Everything after the first test is inside the \<^verbatim>\<open>try\<close>: a call that
  raises, and \<^verbatim>\<open>dbResponse.data.length\<close> on a null \<^verbatim>\<open>data\<close>, both end in the \<^verbatim>\<open>catch\<close>.
\<close>

definition isCookieVerified :: "'w env \<Rightarrow> auth \<Rightarrow> 'w st \<Rightarrow> cookie_check \<times> 'w st" where
  "isCookieVerified e a st =
     (if \<not> hasCookie a then (not_found, st)
      else
        (case supabase_select e (sessionCookie a) st of
           (DbThrows error, st') \<Rightarrow> (not_found, st')
         | (DbResult err dat, st') \<Rightarrow>
             (if err \<noteq> None then (not_found, st')
              else
                (case dat of
                   None \<Rightarrow> (not_found, st')
                 | Some [] \<Rightarrow> (not_found, st')
                 | Some (record # rest) \<Rightarrow>
                     (\<lparr> found = True, check_verified = is_verified record,
                        check_id = Some (record_id record) \<rparr>, st')))))"

record create_result =
  success :: bool
  cookie :: "string option"
  create_id :: "string option"

definition create_failed :: create_result where
  "create_failed = \<lparr> success = False, cookie = None, create_id = None \<rparr>"

text \<open>
  \<^verbatim>\<open>#createCookie\<close>. The whole body is inside the \<^verbatim>\<open>try\<close>: \<^verbatim>\<open>dbResponse.data[0]\<close> on a null
  \<^verbatim>\<open>data\<close>, and \<^verbatim>\<open>record.cookie_string\<close> on the undefined first element of an empty array,
  raise a TypeError that the \<^verbatim>\<open>catch\<close> turns into a failure.
\<close>

definition createCookie :: "'w env \<Rightarrow> 'w st \<Rightarrow> create_result \<times> 'w st" where
  "createCookie e st =
     (case supabase_insert e True st of
        (DbThrows error, st') \<Rightarrow> (create_failed, st')
      | (DbResult err dat, st') \<Rightarrow>
          (if err \<noteq> None then (create_failed, st')
           else
             (case dat of
                None \<Rightarrow> (create_failed, st')
              | Some [] \<Rightarrow> (create_failed, st')
              | Some (record # rest) \<Rightarrow>
                  (\<lparr> success = True, cookie = Some (cookie_string record),
                     create_id = Some (record_id record) \<rparr>, st'))))"

record verdict =
  verified :: bool
  reason :: string
  newCookie :: "string option"

text \<open>
  \<^verbatim>\<open>isVerified\<close>. \<^verbatim>\<open>this.#authHeader.startsWith('Basic ')\<close> on a truthy value that is not a
  string raises a TypeError, which leaves the method.
\<close>

definition isVerified :: "'w env \<Rightarrow> auth \<Rightarrow> 'w st \<Rightarrow> (exn + verdict) \<times> 'w st" where
  "isVerified e a st =
     (if hasAuthHeader a then
        (case authHeader a of
           JStr s \<Rightarrow>
             (if \<not> startsWith s ''Basic '' then
                (Inr \<lparr> verified = False, reason = ''Invalid Authorization pattern'',
                       newCookie = None \<rparr>, st)
              else
                (case authHeaderPasswordMatch e a of
                   Inl error \<Rightarrow> (Inl error, st)
                 | Inr matches \<Rightarrow>
                     (if \<not> matches then
                        (Inr \<lparr> verified = False, reason = ''Password does not match'',
                               newCookie = None \<rparr>, st)
                      else
                        (case createCookie e st of
                           (cookieResult, st') \<Rightarrow>
                             (Inr \<lparr> verified = True, reason = ''Authorization header verified'',
                                    newCookie = (if success cookieResult then cookie cookieResult
                                                 else None) \<rparr>, st')))))
         | _ \<Rightarrow> (Inl (TypeError ''this.#authHeader.startsWith is not a function''), st))
      else if \<not> hasCookie a then
        (Inr \<lparr> verified = False, reason = ''No Authorization header or session cookie found'',
               newCookie = None \<rparr>, st)
      else
        (case isCookieVerified e a st of
           (cookieCheck, st') \<Rightarrow>
             (if \<not> found cookieCheck then
                (Inr \<lparr> verified = False, reason = ''Session cookie not found'',
                       newCookie = None \<rparr>, st')
              else if \<not> check_verified cookieCheck then
                (Inr \<lparr> verified = False, reason = ''Session cookie is not verified'',
                       newCookie = None \<rparr>, st')
              else
                (Inr \<lparr> verified = True, reason = ''Session cookie verified'',
                       newCookie = None \<rparr>, st'))))"

section \<open>The class ApiResponse\<close>

text \<open>
  The object keeps the request; the response object and the two callbacks belong to the
  environment, where they are functions by their type, so of the constructor's guard
  only the tests of \<^verbatim>\<open>req\<close> and \<^verbatim>\<open>res\<close> can fail.
\<close>

record api_response =
  api_req :: jsval
  api_res :: jsval

definition ApiResponse_constructor :: "jsval \<Rightarrow> jsval \<Rightarrow> exn + api_response" where
  "ApiResponse_constructor rq rs =
     (if \<not> truthy rq \<or> \<not> truthy rs
      then Inl (Error ''ApiResponse requires req, res objects and onSuccess, onError callbacks'')
      else Inr \<lparr> api_req = rq, api_res = rs \<rparr>)"

text \<open>The header value built by the template literal of \<^verbatim>\<open>send\<close>.\<close>

definition setCookie :: "string \<Rightarrow> string" where
  "setCookie token =
     ''__Host-session='' @ token @ ''; Max-Age='' @ show_nat (30 * 24 * 60 * 60)
       @ ''; HttpOnly; Secure; Path=/''"

text \<open>
  How the \<^verbatim>\<open>try\<close> block of \<^verbatim>\<open>send\<close> ends: an exception was raised inside it (and goes to
  the \<^verbatim>\<open>catch\<close>), or a \<^verbatim>\<open>return\<close> was reached; the returned value settles the promise
  of \<^verbatim>\<open>send\<close>, as a value or, for a returned promise that rejects, as an exception.
\<close>

datatype tried = Raised exn | Finished "exn + jsval"

text \<open>
  The branch on the verdict (the body of the \<^verbatim>\<open>try\<close> after the verdict is known).
  \<^verbatim>\<open>if (authResult.newCookie)\<close> tests truthiness: null and the empty string fail it.
  The success callback is awaited, so its exception and its rejection are both raised
  inside the \<^verbatim>\<open>try\<close>; the error callback is returned without \<^verbatim>\<open>await\<close>, so only its
  synchronous exception is.
\<close>

definition dispatch :: "'w env \<Rightarrow> api_response \<Rightarrow> verdict \<Rightarrow> 'w st \<Rightarrow> tried \<times> 'w st" where
  "dispatch e this authResult st =
     (if verified authResult then
        (case (case newCookie authResult of
                 None \<Rightarrow> (Inr (), st)
               | Some token \<Rightarrow>
                   (if token = [] then (Inr (), st)
                    else call_setHeader e ''Set-Cookie'' (setCookie token) st)) of
           (Inl error, st1) \<Rightarrow> (Raised error, st1)
         | (Inr u, st1) \<Rightarrow>
             (case call_onSuccess e (api_req this) (newCookie authResult) st1 of
                (Returned v, st2) \<Rightarrow> (Finished (Inr v), st2)
              | (Thrown error, st2) \<Rightarrow> (Raised error, st2)
              | (Rejected error, st2) \<Rightarrow> (Raised error, st2)))
      else
        (case call_onError e (reason authResult) st of
           (Returned v, st1) \<Rightarrow> (Finished (Inr v), st1)
         | (Thrown error, st1) \<Rightarrow> (Raised error, st1)
         | (Rejected error, st1) \<Rightarrow> (Finished (Inl error), st1)))"

text \<open>The \<^verbatim>\<open>try\<close> block: construct the Auth object, compute the verdict, branch on it.\<close>

definition send_try :: "'w env \<Rightarrow> api_response \<Rightarrow> 'w st \<Rightarrow> tried \<times> 'w st" where
  "send_try e this st =
     (case Auth_constructor (api_req this) of
        Inl error \<Rightarrow> (Raised error, st)
      | Inr auth \<Rightarrow>
          (case isVerified e auth st of
             (Inl error, st') \<Rightarrow> (Raised error, st')
           | (Inr authResult, st') \<Rightarrow> dispatch e this authResult st'))"

text \<open>
  \<^verbatim>\<open>send\<close>: the \<^verbatim>\<open>try\<close> block and its \<^verbatim>\<open>catch\<close>. The result is how the promise of
  \<^verbatim>\<open>send\<close> settles: \<open>Inr\<close> a value, \<open>Inl\<close> an exception that reaches the caller. (The
  dynamic import of the Auth module, before the \<^verbatim>\<open>try\<close>, is taken to succeed.)
\<close>

definition send :: "'w env \<Rightarrow> api_response \<Rightarrow> 'w st \<Rightarrow> (exn + jsval) \<times> 'w st" where
  "send e this st =
     (case send_try e this st of
        (Finished r, st') \<Rightarrow> (r, st')
      | (Raised error, st') \<Rightarrow>
          (case call_onError e ''Internal authentication error'' st' of
             (Returned v, st'') \<Rightarrow> (Inr v, st'')
           | (Thrown err, st'') \<Rightarrow> (Inl err, st'')
           | (Rejected err, st'') \<Rightarrow> (Inl err, st'')))"

section \<open>A concrete environment\<close>

text \<open>
  An in-memory instance of the environment, on which the model runs: a table of rows, the
  headers of the response and its status. Queries never fail here; the variants below
  make them fail.
\<close>

record world =
  user_cookies :: "row list"
  response_headers :: "(string \<times> string) list"
  response_status :: "nat option"

definition base64_alphabet :: string where
  "base64_alphabet = ''ABCDEFGHIJKLMNOPQRSTUVWXYZabcdefghijklmnopqrstuvwxyz0123456789+/''"

fun index_of :: "'a list \<Rightarrow> 'a \<Rightarrow> nat option" where
  "index_of [] x = None"
| "index_of (y # ys) x = (if x = y then Some 0 else map_option Suc (index_of ys x))"

fun sextets_bytes :: "nat list \<Rightarrow> nat list" where
  "sextets_bytes (a # b # c # d # rest) =
     (a * 4 + b div 16) # ((b mod 16) * 16 + c div 4) # ((c mod 4) * 64 + d) # sextets_bytes rest"
| "sextets_bytes [a, b, c] = [a * 4 + b div 16, (b mod 16) * 16 + c div 4]"
| "sextets_bytes [a, b] = [a * 4 + b div 16]"
| "sextets_bytes rest = []"

definition byte_char :: "nat \<Rightarrow> char" where
  "byte_char n =
     Char (odd n) (odd (n div 2)) (odd (n div 4)) (odd (n div 8))
          (odd (n div 16)) (odd (n div 32)) (odd (n div 64)) (odd (n div 128))"

text \<open>
  A base64 decoder for the examples: standard alphabet, characters outside it skipped,
  input read up to the first padding character, one character per decoded byte.
\<close>

definition base64_ascii :: "string \<Rightarrow> exn + string" where
  "base64_ascii s =
     Inr (map byte_char
       (sextets_bytes (List.map_filter (index_of base64_alphabet) (takeWhile (\<lambda>c. c \<noteq> CHR ''='') s))))"

definition memory_select :: "jsval \<Rightarrow> world \<Rightarrow> db_response \<times> world" where
  "memory_select c w =
     (DbResult None (Some (filter (\<lambda>r. JStr (cookie_string r) = c) (user_cookies w))), w)"

definition memory_insert :: "bool \<Rightarrow> world \<Rightarrow> db_response \<times> world" where
  "memory_insert v w =
     (let n = show_nat (Suc (length (user_cookies w)));
          r = \<lparr> record_id = n, cookie_string = ''token-'' @ n, is_verified = v \<rparr>
      in (DbResult None (Some [r]), w \<lparr> user_cookies := user_cookies w @ [r] \<rparr>))"

definition memory_setHeader :: "string \<Rightarrow> string \<Rightarrow> world \<Rightarrow> (exn + unit) \<times> world" where
  "memory_setHeader name val w =
     (Inr (), w \<lparr> response_headers :=
                    (name, val) # filter (\<lambda>h. fst h \<noteq> name) (response_headers w) \<rparr>)"

definition memory_env :: "world env" where
  "memory_env =
     \<lparr> data_password = Some ''secret'',
       buffer_base64 = base64_ascii,
       select_eq = memory_select,
       insert_select = memory_insert,
       res_setHeader = memory_setHeader,
       onSuccess = (\<lambda>rq tok w. (Returned JUndefined, w \<lparr> response_status := Some 200 \<rparr>)),
       onError = (\<lambda>msg w. (Returned JUndefined, w \<lparr> response_status := Some 401 \<rparr>)) \<rparr>"

definition empty_world :: world where
  "empty_world = \<lparr> user_cookies = [], response_headers = [], response_status = None \<rparr>"

definition request_with :: "(string \<times> jsval) list \<Rightarrow> (string \<times> jsval) list \<Rightarrow> jsval" where
  "request_with hs cs = JObj [(''headers'', JObj hs), (''cookies'', JObj cs)]"

text \<open>Variants of the environment: a store that fails, a store that hands out an empty
  token, an unset password, an error callback that throws.\<close>

definition failing_insert_env :: "world env" where
  "failing_insert_env =
     memory_env \<lparr> insert_select := (\<lambda>v w. (DbResult (Some ''insert failed'') None, w)) \<rparr>"

definition throwing_select_env :: "world env" where
  "throwing_select_env =
     memory_env \<lparr> select_eq := (\<lambda>c w. (DbThrows (Error ''fetch failed''), w)) \<rparr>"

definition empty_token_env :: "world env" where
  "empty_token_env =
     memory_env \<lparr> insert_select := (\<lambda>v w.
        (DbResult None (Some [\<lparr> record_id = ''1'', cookie_string = [], is_verified = v \<rparr>]), w)) \<rparr>"

definition no_password_env :: "world env" where
  "no_password_env = memory_env \<lparr> data_password := None \<rparr>"

definition throwing_onError_env :: "world env" where
  "throwing_onError_env =
     memory_env \<lparr> onError := (\<lambda>msg w. (Thrown (Error ''write after end''), w)) \<rparr>"

definition world_with :: "row list \<Rightarrow> world" where
  "world_with rs = \<lparr> user_cookies = rs, response_headers = [], response_status = None \<rparr>"

text \<open>A request that carries only an authorization header, one that carries only a session
  cookie, and the Auth objects the constructor builds from them.\<close>

definition header_request :: "string \<Rightarrow> jsval" where
  "header_request s = request_with [(''authorization'', JStr s)] []"

definition cookie_request :: "string \<Rightarrow> jsval" where
  "cookie_request c = request_with [] [(''__Host-session'', JStr c)]"

definition header_auth :: "string \<Rightarrow> auth" where
  "header_auth s = \<lparr> req = header_request s, authHeader = JStr s, sessionCookie = JNull \<rparr>"

definition cookie_auth :: "string \<Rightarrow> auth" where
  "cookie_auth c = \<lparr> req = cookie_request c, authHeader = JNull, sessionCookie = JStr c \<rparr>"

text \<open>Two rows: an issued, verified session and one whose flag is false. An environment
  whose decoder raises, and a request whose authorization header is not a string.\<close>

definition issued_row :: row where
  "issued_row = \<lparr> record_id = ''1'', cookie_string = ''token-1'', is_verified = True \<rparr>"

definition pending_row :: row where
  "pending_row = \<lparr> record_id = ''2'', cookie_string = ''token-2'', is_verified = False \<rparr>"

definition failing_decoder_env :: "world env" where
  "failing_decoder_env =
     memory_env \<lparr> buffer_base64 := (\<lambda>s. Inl (TypeError ''invalid input'')) \<rparr>"

definition numeric_header_request :: jsval where
  "numeric_header_request = request_with [(''authorization'', JNum 5)] []"

section \<open>The two situations of the specification\<close>

text \<open>
  The specification names two situations in which a request is verified. They are written
  here in its words, to be compared with what the code computes.

  Situation (a): an inline credential was supplied, it carries the prefix \<^verbatim>\<open>Basic \<close> (six
  characters), and what follows the prefix decodes to the configured password.
\<close>

definition situation_a :: "'w env \<Rightarrow> auth \<Rightarrow> bool" where
  "situation_a e a =
     (case authHeader a of
        JStr s \<Rightarrow>
          s \<noteq> [] \<and> take 6 s = ''Basic '' \<and>
          (case buffer_base64 e (drop 6 s) of
             Inl x \<Rightarrow> False
           | Inr p \<Rightarrow> data_password e = Some p)
      | _ \<Rightarrow> False)"

text \<open>
  What the lookup of a session token shows of the store: the first row of a successful
  answer, or nothing (the call raised, answered with an error, or found no row).
\<close>

definition matching_record :: "'w env \<Rightarrow> jsval \<Rightarrow> 'w \<Rightarrow> row option" where
  "matching_record e c w =
     (case fst (select_eq e c w) of
        DbThrows x \<Rightarrow> None
      | DbResult err dat \<Rightarrow>
          (if err \<noteq> None then None
           else (case dat of None \<Rightarrow> None | Some [] \<Rightarrow> None | Some (r # rs) \<Rightarrow> Some r)))"

text \<open>
  Situation (b): no inline credential was supplied, a session token was supplied, the
  store shows a matching record, and its flag is true.
\<close>

definition situation_b :: "'w env \<Rightarrow> auth \<Rightarrow> 'w \<Rightarrow> bool" where
  "situation_b e a w =
     (\<not> truthy (authHeader a) \<and> truthy (sessionCookie a) \<and>
      (case matching_record e (sessionCookie a) w of
         None \<Rightarrow> False
       | Some r \<Rightarrow> is_verified r))"

text \<open>What the creation of a record shows of the store: the created row, when the store
  confirmed the creation.\<close>

definition created_record :: "'w env \<Rightarrow> 'w \<Rightarrow> row option" where
  "created_record e w =
     (case fst (insert_select e True w) of
        DbThrows x \<Rightarrow> None
      | DbResult err dat \<Rightarrow>
          (if err \<noteq> None then None
           else (case dat of None \<Rightarrow> None | Some [] \<Rightarrow> None | Some (r # rs) \<Rightarrow> Some r)))"

section \<open>Strings and the cookie header\<close>

lemma startsWith_append: "startsWith (p @ r) p"
  by (simp add: startsWith_def)

lemma replace_prefix: "startsWith s p \<Longrightarrow> replace s p rep = rep @ drop (length p) s"
  by (cases s) (auto simp: startsWith_def)

lemma base64_secret: "base64_ascii ''c2VjcmV0'' = Inr ''secret''"
  by (simp add: base64_ascii_def base64_alphabet_def List.map_filter_def byte_char_def)

lemma length_Basic: "length ''Basic '' = 6"
  by simp

lemma startsWith_Basic: "startsWith s ''Basic '' \<longleftrightarrow> take 6 s = ''Basic ''"
  unfolding startsWith_def length_Basic ..

lemma replace_Basic:
  assumes "take 6 s = ''Basic ''"
  shows "replace s ''Basic '' [] = drop 6 s"
proof -
  from assms have "startsWith s ''Basic ''"
    by (simp only: startsWith_Basic)
  then have "replace s ''Basic '' [] = [] @ drop (length ''Basic '') s"
    by (rule replace_prefix)
  then show ?thesis
    by (simp only: length_Basic append_Nil)
qed

lemma show_max_age: "show_nat (30 * 24 * 60 * 60) = ''2592000''"
  by (simp add: show_nat.simps digit_char_def)

lemma setCookie_text:
  "setCookie t = ''__Host-session='' @ t @ ''; Max-Age=2592000; HttpOnly; Secure; Path=/''"
  unfolding setCookie_def show_max_age by simp

section \<open>The branches of isVerified\<close>

lemma createCookie_eq:
  "createCookie e (tr, w) =
     ((case created_record e w of
         None \<Rightarrow> create_failed
       | Some r \<Rightarrow> \<lparr> success = True, cookie = Some (cookie_string r),
                      create_id = Some (record_id r) \<rparr>),
      (tr @ [Insert True], snd (insert_select e True w)))"
  by (auto simp: createCookie_def supabase_insert_def created_record_def
           split: prod.splits db_response.splits option.splits list.splits)

lemma isCookieVerified_eq:
  "truthy (sessionCookie a) \<Longrightarrow>
   isCookieVerified e a (tr, w) =
     ((case matching_record e (sessionCookie a) w of
         None \<Rightarrow> not_found
       | Some r \<Rightarrow> \<lparr> found = True, check_verified = is_verified r,
                      check_id = Some (record_id r) \<rparr>),
      (tr @ [Select (sessionCookie a)], snd (select_eq e (sessionCookie a) w)))"
  by (auto simp: isCookieVerified_def hasCookie_def supabase_select_def matching_record_def
           split: prod.splits db_response.splits option.splits list.splits)

lemma passwordMatch_string:
  "authHeader a = JStr s \<Longrightarrow> take 6 s = ''Basic '' \<Longrightarrow>
   authHeaderPasswordMatch e a =
     Inr (case buffer_base64 e (drop 6 s) of Inl x \<Rightarrow> False | Inr p \<Rightarrow> data_password e = Some p)"
  by (auto simp: authHeaderPasswordMatch_def startsWith_Basic replace_Basic Let_def
           split: sum.splits)

lemma passwordMatch_situation_a:
  "authHeader a = JStr s \<Longrightarrow> take 6 s = ''Basic '' \<Longrightarrow>
   authHeaderPasswordMatch e a = Inr (situation_a e a)"
  by (auto simp: passwordMatch_string situation_a_def split: sum.splits)


lemma isVerified_not_string:
  "truthy (authHeader a) \<Longrightarrow> \<forall>s. authHeader a \<noteq> JStr s \<Longrightarrow>
   isVerified e a st = (Inl (TypeError ''this.#authHeader.startsWith is not a function''), st)"
  by (cases "authHeader a") (simp_all add: isVerified_def hasAuthHeader_def)

lemma isVerified_invalid_pattern:
  "authHeader a = JStr s \<Longrightarrow> s \<noteq> [] \<Longrightarrow> take 6 s \<noteq> ''Basic '' \<Longrightarrow>
   isVerified e a st =
     (Inr \<lparr> verified = False, reason = ''Invalid Authorization pattern'', newCookie = None \<rparr>, st)"
  by (simp add: isVerified_def hasAuthHeader_def startsWith_Basic)

lemma Basic_nonempty: "take 6 s = ''Basic '' \<Longrightarrow> s \<noteq> []"
  by auto

lemma isVerified_mismatch:
  "authHeader a = JStr s \<Longrightarrow> take 6 s = ''Basic '' \<Longrightarrow> \<not> situation_a e a \<Longrightarrow>
   isVerified e a st =
     (Inr \<lparr> verified = False, reason = ''Password does not match'', newCookie = None \<rparr>, st)"
  using Basic_nonempty [of s]
  by (simp add: isVerified_def hasAuthHeader_def startsWith_Basic passwordMatch_situation_a)

lemma isVerified_match:
  "authHeader a = JStr s \<Longrightarrow> take 6 s = ''Basic '' \<Longrightarrow> situation_a e a \<Longrightarrow>
   isVerified e a (tr, w) =
     (Inr \<lparr> verified = True, reason = ''Authorization header verified'',
            newCookie = map_option cookie_string (created_record e w) \<rparr>,
      (tr @ [Insert True], snd (insert_select e True w)))"
  using Basic_nonempty [of s]
  by (simp add: isVerified_def hasAuthHeader_def startsWith_Basic passwordMatch_situation_a
        createCookie_eq create_failed_def split: option.splits)

lemma isVerified_no_credentials:
  "\<not> truthy (authHeader a) \<Longrightarrow> \<not> truthy (sessionCookie a) \<Longrightarrow>
   isVerified e a st =
     (Inr \<lparr> verified = False, reason = ''No Authorization header or session cookie found'',
            newCookie = None \<rparr>, st)"
  by (simp add: isVerified_def hasAuthHeader_def hasCookie_def)

lemma isVerified_cookie:
  "\<not> truthy (authHeader a) \<Longrightarrow> truthy (sessionCookie a) \<Longrightarrow>
   isVerified e a (tr, w) =
     (Inr (case matching_record e (sessionCookie a) w of
             None \<Rightarrow> \<lparr> verified = False, reason = ''Session cookie not found'',
                        newCookie = None \<rparr>
           | Some r \<Rightarrow>
               (if is_verified r
                then \<lparr> verified = True, reason = ''Session cookie verified'', newCookie = None \<rparr>
                else \<lparr> verified = False, reason = ''Session cookie is not verified'',
                       newCookie = None \<rparr>)),
      (tr @ [Select (sessionCookie a)], snd (select_eq e (sessionCookie a) w)))"
  by (simp add: isVerified_def hasAuthHeader_def hasCookie_def isCookieVerified_eq not_found_def
        split: option.splits)

lemma situation_a_string:
  "situation_a e a \<Longrightarrow> \<exists>s. authHeader a = JStr s \<and> take 6 s = ''Basic ''"
  by (auto simp: situation_a_def split: jsval.splits)

lemma situation_a_truthy: "situation_a e a \<Longrightarrow> truthy (authHeader a)"
  by (auto simp: situation_a_def split: jsval.splits)

lemma situations_exclusive: "situation_a e a \<Longrightarrow> \<not> situation_b e a w"
  by (simp add: situation_b_def situation_a_truthy)

text \<open>The five ways a call of isVerified can go, by the shape of the two extracted fields.\<close>

lemma auth_cases:
  obtains
    (not_string) "truthy (authHeader a)" "\<forall>s. authHeader a \<noteq> JStr s"
  | (invalid) s where "authHeader a = JStr s" "s \<noteq> []" "take 6 s \<noteq> ''Basic ''"
  | (basic) s where "authHeader a = JStr s" "take 6 s = ''Basic ''"
  | (absent) "\<not> truthy (authHeader a)" "\<not> truthy (sessionCookie a)"
  | (token) "\<not> truthy (authHeader a)" "truthy (sessionCookie a)"
  by (cases "authHeader a") auto

section \<open>When a request is verified\<close>

text \<open>
  Claim C1. For every request, the verdict of \<^verbatim>\<open>Auth.isVerified\<close> has \<open>verified = true\<close>
  in exactly two situations: (a) an inline credential was supplied and, with the prefix
  \<^verbatim>\<open>Basic \<close> stripped and the rest base64-decoded, it equals the configured password;
  (b) no inline credential was supplied, a session token was supplied, the store shows a
  matching record and its flag is true. In every other case \<open>verified = false\<close>.
  The method returns no verdict only when the authorization header is a truthy value
  that is not a string (a TypeError), which no HTTP header is.
\<close>


theorem verified_iff_situation:
  "(case fst (isVerified e a (tr, w)) of
      Inr v \<Rightarrow> verified v = (situation_a e a \<or> situation_b e a w)
    | Inl x \<Rightarrow> truthy (authHeader a) \<and> (\<forall>s. authHeader a \<noteq> JStr s))"
proof (cases a rule: auth_cases)
  case not_string
  then show ?thesis by (simp add: isVerified_not_string)
next
  case (invalid s)
  then have "\<not> situation_a e a" "\<not> situation_b e a w"
    by (simp_all add: situation_a_def situation_b_def)
  then show ?thesis by (simp add: isVerified_invalid_pattern [OF invalid])
next
  case (basic s)
  then have nb: "\<not> situation_b e a w"
    using Basic_nonempty [of s] by (simp add: situation_b_def)
  show ?thesis
  proof (cases "situation_a e a")
    case True
    then show ?thesis by (simp add: isVerified_match [OF basic])
  next
    case False
    with nb show ?thesis by (simp add: isVerified_mismatch [OF basic])
  qed
next
  case absent
  then have "\<not> situation_a e a" "\<not> situation_b e a w"
    using situation_a_truthy [of e a] by (auto simp: situation_b_def)
  then show ?thesis by (simp add: isVerified_no_credentials [OF absent])
next
  case token
  then have "\<not> situation_a e a"
    using situation_a_truthy [of e a] by auto
  then show ?thesis
    using token by (simp add: isVerified_cookie [OF token] situation_b_def split: option.splits)
qed

theorem verified_iff_situation_witness:
  "(case fst (isVerified memory_env (header_auth ''Basic c2VjcmV0'') ([], empty_world)) of
      Inr v \<Rightarrow> verified v
    | Inl x \<Rightarrow> False) \<and>
   (case fst (isVerified memory_env (cookie_auth ''abc123'') ([], empty_world)) of
      Inr v \<Rightarrow> \<not> verified v
    | Inl x \<Rightarrow> False)"
proof -
  have a: "situation_a memory_env (header_auth ''Basic c2VjcmV0'')"
    by (simp add: situation_a_def header_auth_def memory_env_def base64_secret)
  have b: "\<not> situation_a memory_env (cookie_auth ''abc123'')"
          "\<not> situation_b memory_env (cookie_auth ''abc123'') empty_world"
    by (simp_all add: situation_a_def situation_b_def matching_record_def cookie_auth_def
          memory_env_def memory_select_def empty_world_def)
  have c: "authHeader (cookie_auth ''abc123'') = JNull"
          "authHeader (header_auth ''Basic c2VjcmV0'') = JStr ''Basic c2VjcmV0''"
    by (simp_all add: cookie_auth_def header_auth_def)
  show ?thesis
    using
      verified_iff_situation [where e = memory_env and a = "header_auth ''Basic c2VjcmV0''"
        and tr = "[]" and w = empty_world]
      verified_iff_situation [where e = memory_env and a = "cookie_auth ''abc123''"
        and tr = "[]" and w = empty_world]
      a b
    by (simp add: c split: sum.splits)
qed

section \<open>When a session record is created\<close>

lemma not_situation_a_cases:
  "\<forall>s. authHeader a \<noteq> JStr s \<Longrightarrow> \<not> situation_a e a"
  "authHeader a = JStr s \<Longrightarrow> take 6 s \<noteq> ''Basic '' \<Longrightarrow> \<not> situation_a e a"
  "\<not> truthy (authHeader a) \<Longrightarrow> \<not> situation_a e a"
  using situation_a_string [of e a] situation_a_truthy [of e a] by auto

lemma isVerified_events:
  "fst (snd (isVerified e a (tr, w))) =
     tr @ (if situation_a e a then [Insert True]
           else if \<not> truthy (authHeader a) \<and> truthy (sessionCookie a)
                then [Select (sessionCookie a)] else [])"
proof (cases a rule: auth_cases)
  case not_string
  then show ?thesis by (simp add: isVerified_not_string not_situation_a_cases(1))
next
  case (invalid s)
  then show ?thesis
    by (simp add: isVerified_invalid_pattern [OF invalid] not_situation_a_cases(2) [OF invalid(1,3)])
next
  case (basic s)
  then have t: "truthy (authHeader a)" using Basic_nonempty [of s] by simp
  show ?thesis
  proof (cases "situation_a e a")
    case True
    then show ?thesis by (simp add: isVerified_match [OF basic])
  next
    case False
    then show ?thesis using t by (simp add: isVerified_mismatch [OF basic])
  qed
next
  case absent
  then show ?thesis by (simp add: isVerified_no_credentials [OF absent] not_situation_a_cases(3))
next
  case token
  then show ?thesis by (simp add: isVerified_cookie [OF token] not_situation_a_cases(3))
qed




section \<open>Verification by session token\<close>

text \<open>
  Claim C3. For every request with no inline credential and a session token: if the
  lookup raises, answers with an error, answers with no data or with no row, the verdict
  is \<open>verified = false\<close> with reason "Session cookie not found"; if the first row has a
  false flag, it is \<open>verified = false\<close> with reason "Session cookie is not verified"; if
  the first row has a true flag, it is \<open>verified = true\<close> with reason
  "Session cookie verified" and no new token.
\<close>

theorem token_lookup_verdicts:
  assumes "\<not> truthy (authHeader a)" and "truthy (sessionCookie a)"
  shows
    "(\<forall>x. fst (select_eq e (sessionCookie a) w) = DbThrows x \<longrightarrow>
        fst (isVerified e a (tr, w)) =
          Inr \<lparr> verified = False, reason = ''Session cookie not found'', newCookie = None \<rparr>) \<and>
     (\<forall>err dat. fst (select_eq e (sessionCookie a) w) = DbResult (Some err) dat \<longrightarrow>
        fst (isVerified e a (tr, w)) =
          Inr \<lparr> verified = False, reason = ''Session cookie not found'', newCookie = None \<rparr>) \<and>
     (fst (select_eq e (sessionCookie a) w) = DbResult None None \<longrightarrow>
        fst (isVerified e a (tr, w)) =
          Inr \<lparr> verified = False, reason = ''Session cookie not found'', newCookie = None \<rparr>) \<and>
     (fst (select_eq e (sessionCookie a) w) = DbResult None (Some []) \<longrightarrow>
        fst (isVerified e a (tr, w)) =
          Inr \<lparr> verified = False, reason = ''Session cookie not found'', newCookie = None \<rparr>) \<and>
     (\<forall>r rs. fst (select_eq e (sessionCookie a) w) = DbResult None (Some (r # rs)) \<longrightarrow>
        \<not> is_verified r \<longrightarrow>
        fst (isVerified e a (tr, w)) =
          Inr \<lparr> verified = False, reason = ''Session cookie is not verified'',
                 newCookie = None \<rparr>) \<and>
     (\<forall>r rs. fst (select_eq e (sessionCookie a) w) = DbResult None (Some (r # rs)) \<longrightarrow>
        is_verified r \<longrightarrow>
        fst (isVerified e a (tr, w)) =
          Inr \<lparr> verified = True, reason = ''Session cookie verified'', newCookie = None \<rparr>)"
  by (simp add: isVerified_cookie [OF assms] matching_record_def)

section \<open>Verification by inline credential\<close>

lemma new_token_origin:
  "(situation_a e a \<longrightarrow> created_record e w = None \<longrightarrow>
      fst (isVerified e a (tr, w)) =
        Inr \<lparr> verified = True, reason = ''Authorization header verified'', newCookie = None \<rparr>) \<and>
   (\<forall>v token. fst (isVerified e a (tr, w)) = Inr v \<longrightarrow> newCookie v = Some token \<longrightarrow>
      situation_a e a \<and> (\<exists>r. created_record e w = Some r \<and> cookie_string r = token))"
proof (intro conjI impI allI)
  assume "situation_a e a" and "created_record e w = None"
  then show "fst (isVerified e a (tr, w)) =
        Inr \<lparr> verified = True, reason = ''Authorization header verified'', newCookie = None \<rparr>"
    using situation_a_string [of e a] by (auto simp: isVerified_match)
next
  fix v token
  assume v: "fst (isVerified e a (tr, w)) = Inr v" and t: "newCookie v = Some token"
  have a: "situation_a e a"
  proof (rule ccontr)
    assume n: "\<not> situation_a e a"
    have "newCookie v = None"
    proof (cases a rule: auth_cases)
      case not_string
      with v show ?thesis by (simp add: isVerified_not_string)
    next
      case (invalid s)
      with v show ?thesis by (auto simp: isVerified_invalid_pattern [OF invalid])
    next
      case (basic s)
      with v n show ?thesis by (auto simp: isVerified_mismatch [OF basic])
    next
      case absent
      with v show ?thesis by (auto simp: isVerified_no_credentials [OF absent])
    next
      case token
      with v show ?thesis by (auto simp: isVerified_cookie [OF token] split: option.splits if_splits)
    qed
    with t show False by simp
  qed
  then obtain s where s: "authHeader a = JStr s" "take 6 s = ''Basic ''"
    using situation_a_string by blast
  from v t have "\<exists>r. created_record e w = Some r \<and> cookie_string r = token"
    by (auto simp: isVerified_match [OF s a])
  with a show "situation_a e a" and "\<exists>r. created_record e w = Some r \<and> cookie_string r = token"
    by simp_all
qed

text \<open>
  Claim C4. When the inline credential matches and the store does not confirm the creation
  of a record (the call raises, answers with an error, or returns no row), the verdict is
  still \<open>verified = true\<close> with reason "Authorization header verified", and the new token
  is null. For every request, a verdict carries a new token only in situation (a) and only
  when the store confirmed the creation; the token is then the one of the created row.
  And when the store confirms the creation in situation (a), the verdict does carry the
  token of the created row.
\<close>

theorem creation_failure_keeps_verdict:
  "(situation_a e a \<and>
      ((\<exists>x. fst (insert_select e True w) = DbThrows x) \<or>
       (\<exists>err dat. fst (insert_select e True w) = DbResult (Some err) dat) \<or>
       fst (insert_select e True w) = DbResult None None \<or>
       fst (insert_select e True w) = DbResult None (Some []))
    \<longrightarrow> fst (isVerified e a (tr, w)) =
          Inr \<lparr> verified = True, reason = ''Authorization header verified'',
                 newCookie = None \<rparr>) \<and>
   (\<forall>v token. fst (isVerified e a (tr, w)) = Inr v \<and> newCookie v = Some token \<longrightarrow>
      situation_a e a \<and>
      (\<exists>r rs. fst (insert_select e True w) = DbResult None (Some (r # rs)) \<and>
               cookie_string r = token)) \<and>
   (\<forall>r rs. situation_a e a \<and>
       fst (insert_select e True w) = DbResult None (Some (r # rs)) \<longrightarrow>
      fst (isVerified e a (tr, w)) =
        Inr \<lparr> verified = True, reason = ''Authorization header verified'',
               newCookie = Some (cookie_string r) \<rparr>)"
proof (intro conjI impI allI)
  assume h: "situation_a e a \<and>
      ((\<exists>x. fst (insert_select e True w) = DbThrows x) \<or>
       (\<exists>err dat. fst (insert_select e True w) = DbResult (Some err) dat) \<or>
       fst (insert_select e True w) = DbResult None None \<or>
       fst (insert_select e True w) = DbResult None (Some []))"
  then have "created_record e w = None"
    by (auto simp: created_record_def)
  with h new_token_origin [of e a w tr]
  show "fst (isVerified e a (tr, w)) =
          Inr \<lparr> verified = True, reason = ''Authorization header verified'',
                 newCookie = None \<rparr>"
    by blast
next
  fix v token
  assume h: "fst (isVerified e a (tr, w)) = Inr v \<and> newCookie v = Some token"
  with new_token_origin [of e a w tr]
  have a: "situation_a e a" and "\<exists>r. created_record e w = Some r \<and> cookie_string r = token"
    by blast+
  then obtain r where r: "created_record e w = Some r" "cookie_string r = token"
    by blast
  from r(1) have "\<exists>rs. fst (insert_select e True w) = DbResult None (Some (r # rs))"
    by (auto simp: created_record_def
             split: db_response.splits option.splits list.splits if_splits)
  with r(2) a
  show "situation_a e a" and
    "\<exists>r rs. fst (insert_select e True w) = DbResult None (Some (r # rs)) \<and>
             cookie_string r = token"
    by blast+
next
  fix r rs
  assume h: "situation_a e a \<and>
       fst (insert_select e True w) = DbResult None (Some (r # rs))"
  then have c: "created_record e w = Some r"
    by (simp add: created_record_def)
  from h obtain s where s: "authHeader a = JStr s" "take 6 s = ''Basic ''"
    using situation_a_string by blast
  from h have a: "situation_a e a" by simp
  from isVerified_match [OF s a, of tr w] c
  show "fst (isVerified e a (tr, w)) =
        Inr \<lparr> verified = True, reason = ''Authorization header verified'',
               newCookie = Some (cookie_string r) \<rparr>"
    by simp
qed

text \<open>
  Claim C5. For every inline credential that starts with \<^verbatim>\<open>Basic \<close> and whose remainder
  does not decode to the configured password (the decoder raising included), the verdict
  is \<open>verified = false\<close> with reason "Password does not match"; no exception leaves the
  method, and neither the list of calls nor the outside world changes, so no record is
  created.
\<close>

theorem password_mismatch_rejected:
  assumes "authHeader a = JStr s" and "startsWith s ''Basic ''"
    and "\<forall>p. buffer_base64 e (drop 6 s) = Inr p \<longrightarrow> data_password e \<noteq> Some p"
  shows "isVerified e a st =
           (Inr \<lparr> verified = False, reason = ''Password does not match'', newCookie = None \<rparr>, st)"
proof -
  from assms(2) have p: "take 6 s = ''Basic ''"
    by (simp only: startsWith_Basic)
  from assms(1,3) p have "\<not> situation_a e a"
    by (auto simp: situation_a_def split: sum.splits)
  with assms(1) p show ?thesis
    by (rule isVerified_mismatch)
qed

text \<open>
  Claim C6. For every inline credential (a non-empty header string) that does not start
  with \<^verbatim>\<open>Basic \<close>, the verdict is \<open>verified = false\<close> with reason
  "Invalid Authorization pattern", in every environment and every state of the store; the
  list of calls and the outside world are left as they were, so the store is not consulted.
\<close>

theorem invalid_pattern_rejected:
  assumes "authHeader a = JStr s" and "s \<noteq> []" and "\<not> startsWith s ''Basic ''"
  shows "isVerified e a st =
           (Inr \<lparr> verified = False, reason = ''Invalid Authorization pattern'',
                  newCookie = None \<rparr>, st)"
proof -
  from assms(3) have "take 6 s \<noteq> ''Basic ''"
    by (simp only: startsWith_Basic not_False_eq_True)
  with assms(1,2) show ?thesis
    by (rule isVerified_invalid_pattern)
qed

text \<open>
  Claim C10. When the configured password is undefined, the inline check fails for every
  credential string and never answers true; no verdict has the reason
  "Authorization header verified" or carries a new token, and \<^verbatim>\<open>isVerified\<close> never asks
  the store to create a record.
\<close>

theorem unset_password_never_matches:
  assumes "data_password e = None"
  shows "(\<forall>s. authHeader a = JStr s \<longrightarrow> authHeaderPasswordMatch e a = Inr False) \<and>
         authHeaderPasswordMatch e a \<noteq> Inr True \<and>
         (\<forall>v. fst (isVerified e a (tr, w)) = Inr v \<longrightarrow>
            reason v \<noteq> ''Authorization header verified'' \<and> newCookie v = None) \<and>
         (\<exists>new. fst (snd (isVerified e a (tr, w))) = tr @ new \<and> (\<forall>b. Insert b \<notin> set new))"
proof -
  have m: "authHeaderPasswordMatch e a = Inr False" if "authHeader a = JStr s" for s
    using that assms
    by (auto simp: authHeaderPasswordMatch_def Let_def split: sum.splits)
  have n: "authHeaderPasswordMatch e a \<noteq> Inr True"
    using assms
    by (auto simp: authHeaderPasswordMatch_def Let_def split: jsval.splits sum.splits)
  have na: "\<not> situation_a e a"
    using assms by (auto simp: situation_a_def split: jsval.splits sum.splits)
  have v: "reason v \<noteq> ''Authorization header verified'' \<and> newCookie v = None"
    if v: "fst (isVerified e a (tr, w)) = Inr v" for v
  proof (cases a rule: auth_cases)
    case not_string
    with v show ?thesis by (simp add: isVerified_not_string)
  next
    case (invalid s)
    with v show ?thesis by (auto simp: isVerified_invalid_pattern [OF invalid])
  next
    case (basic s)
    with v na show ?thesis by (auto simp: isVerified_mismatch [OF basic])
  next
    case absent
    with v show ?thesis by (auto simp: isVerified_no_credentials [OF absent])
  next
    case token
    with v show ?thesis by (auto simp: isVerified_cookie [OF token] split: option.splits if_splits)
  qed
  have ev: "\<exists>new. fst (snd (isVerified e a (tr, w))) = tr @ new \<and> (\<forall>b. Insert b \<notin> set new)"
    using na by (simp add: isVerified_events)
  from m n v ev show ?thesis by blast
qed

section \<open>The extraction of the credentials\<close>

lemma object_iff: "truthy rq \<and> typeof rq = ''object'' \<longleftrightarrow> (\<exists>ps. rq = JObj ps)"
  by (cases rq) auto

lemma Auth_constructor_rejects:
  "\<not> truthy rq \<or> typeof rq \<noteq> ''object'' \<Longrightarrow>
   Auth_constructor rq = Inl (Error ''Auth constructor requires a valid request object'')"
  by (auto simp: Auth_constructor_def)

lemma Auth_constructor_object:
  assumes "truthy rq" and "typeof rq = ''object''"
  shows "\<exists>a. Auth_constructor rq = Inr a \<and>
           (authHeader a = JNull \<or> truthy (authHeader a)) \<and>
           (sessionCookie a = JNull \<or> truthy (sessionCookie a)) \<and>
           (\<not> truthy (opt_chain (get_prop rq ''headers'') ''authorization'')
              \<longrightarrow> authHeader a = JNull) \<and>
           (truthy (opt_chain (get_prop rq ''headers'') ''authorization'')
              \<longrightarrow> authHeader a = opt_chain (get_prop rq ''headers'') ''authorization'') \<and>
           (\<not> truthy (opt_chain (get_prop rq ''cookies'') ''__Host-session'')
              \<longrightarrow> sessionCookie a = JNull) \<and>
           (truthy (opt_chain (get_prop rq ''cookies'') ''__Host-session'')
              \<longrightarrow> sessionCookie a = opt_chain (get_prop rq ''cookies'') ''__Host-session'')"
  using assms by (simp add: Auth_constructor_def js_or_def)

lemma Auth_constructor_returns_iff:
  "(\<exists>a. Auth_constructor rq = Inr a) \<longleftrightarrow> truthy rq \<and> typeof rq = ''object''"
  by (auto simp: Auth_constructor_def)

text \<open>
  Claim C9, amended. The constructor raises exactly when its argument is not an object
  (falsy, or of another \<^verbatim>\<open>typeof\<close>), and then with the error
  "Auth constructor requires a valid request object". For every request that is an
  object it raises no exception and returns an Auth object whose two fields are either
  null or the truthy value found in the request: an absent (undefined, null or empty)
  header or cookie is stored as null. The construction reaches nothing outside: inside
  \<^verbatim>\<open>send\<close>, in every environment, the list of calls and the outside world are the same
  after the construction as before it, whether it raises (the \<^verbatim>\<open>try\<close> block ends in the
  state it started in) or returns (the verifier starts in that state).
\<close>

theorem extractor_raises_only_on_non_object:
  "(truthy rq \<and> typeof rq = ''object'' \<longrightarrow> (\<exists>a. Auth_constructor rq = Inr a)) \<and>
   (\<not> (truthy rq \<and> typeof rq = ''object'') \<longrightarrow>
      Auth_constructor rq = Inl (Error ''Auth constructor requires a valid request object'')) \<and>
   (\<forall>a. Auth_constructor rq = Inr a \<longrightarrow>
      req a = rq \<and>
      (authHeader a = JNull \<or> truthy (authHeader a)) \<and>
      (sessionCookie a = JNull \<or> truthy (sessionCookie a)) \<and>
      (\<not> truthy (opt_chain (get_prop rq ''headers'') ''authorization'')
         \<longrightarrow> authHeader a = JNull) \<and>
      (truthy (opt_chain (get_prop rq ''headers'') ''authorization'')
         \<longrightarrow> authHeader a = opt_chain (get_prop rq ''headers'') ''authorization'') \<and>
      (\<not> truthy (opt_chain (get_prop rq ''cookies'') ''__Host-session'')
         \<longrightarrow> sessionCookie a = JNull) \<and>
      (truthy (opt_chain (get_prop rq ''cookies'') ''__Host-session'')
         \<longrightarrow> sessionCookie a = opt_chain (get_prop rq ''cookies'') ''__Host-session'')) \<and>
   (\<forall>x. Auth_constructor rq = Inl x \<longrightarrow>
      send_try e \<lparr> api_req = rq, api_res = rs \<rparr> st = (Raised x, st)) \<and>
   (\<forall>a. Auth_constructor rq = Inr a \<longrightarrow>
      send_try e \<lparr> api_req = rq, api_res = rs \<rparr> st =
        (case isVerified e a st of
           (Inl error, st') \<Rightarrow> (Raised error, st')
         | (Inr authResult, st') \<Rightarrow> dispatch e \<lparr> api_req = rq, api_res = rs \<rparr> authResult st'))"
proof (intro conjI impI allI)
  assume "truthy rq \<and> typeof rq = ''object''"
  then show "\<exists>a. Auth_constructor rq = Inr a"
    by (simp only: Auth_constructor_returns_iff)
next
  assume "\<not> (truthy rq \<and> typeof rq = ''object'')"
  then have "\<not> truthy rq \<or> typeof rq \<noteq> ''object''" by simp
  then show "Auth_constructor rq =
               Inl (Error ''Auth constructor requires a valid request object'')"
    by (rule Auth_constructor_rejects)
next
  fix a
  assume r: "Auth_constructor rq = Inr a"
  then have o: "truthy rq" "typeof rq = ''object''"
    using Auth_constructor_returns_iff [of rq] by blast+
  from r o show "req a = rq"
    by (auto simp: Auth_constructor_def)
  from Auth_constructor_object [OF o] r
  show "authHeader a = JNull \<or> truthy (authHeader a)"
    and "sessionCookie a = JNull \<or> truthy (sessionCookie a)"
    and "\<not> truthy (opt_chain (get_prop rq ''headers'') ''authorization'') \<Longrightarrow>
           authHeader a = JNull"
    and "truthy (opt_chain (get_prop rq ''headers'') ''authorization'') \<Longrightarrow>
           authHeader a = opt_chain (get_prop rq ''headers'') ''authorization''"
    and "\<not> truthy (opt_chain (get_prop rq ''cookies'') ''__Host-session'') \<Longrightarrow>
           sessionCookie a = JNull"
    and "truthy (opt_chain (get_prop rq ''cookies'') ''__Host-session'') \<Longrightarrow>
           sessionCookie a = opt_chain (get_prop rq ''cookies'') ''__Host-session''"
    by auto
next
  fix x
  assume "Auth_constructor rq = Inl x"
  then show "send_try e \<lparr> api_req = rq, api_res = rs \<rparr> st = (Raised x, st)"
    by (simp add: send_try_def)
next
  fix a
  assume "Auth_constructor rq = Inr a"
  then show "send_try e \<lparr> api_req = rq, api_res = rs \<rparr> st =
        (case isVerified e a st of
           (Inl error, st') \<Rightarrow> (Raised error, st')
         | (Inr authResult, st') \<Rightarrow> dispatch e \<lparr> api_req = rq, api_res = rs \<rparr> authResult st')"
    by (simp add: send_try_def)
qed

section \<open>The branches of send\<close>

lemma send_try_verdict:
  "Auth_constructor (api_req this) = Inr a \<Longrightarrow> isVerified e a st = (Inr v, st1) \<Longrightarrow>
   send_try e this st = dispatch e this v st1"
  by (simp add: send_try_def)

lemma send_try_raised:
  "Auth_constructor (api_req this) = Inl x \<Longrightarrow> send_try e this st = (Raised x, st)"
  "Auth_constructor (api_req this) = Inr a \<Longrightarrow> isVerified e a st = (Inl x, st1) \<Longrightarrow>
   send_try e this st = (Raised x, st1)"
  by (simp_all add: send_try_def)

lemma send_after_try:
  "send_try e this st = (t, (tr1, w1)) \<Longrightarrow>
   fst (snd (send e this st)) =
     tr1 @ (case t of Raised x \<Rightarrow> [OnError ''Internal authentication error'']
                    | Finished r \<Rightarrow> [])"
  by (auto simp: send_def call_onError_def split: tried.splits prod.splits outcome.splits)

lemma send_caught:
  "send_try e this st = (Raised x, (tr1, w1)) \<Longrightarrow>
   fst (send e this st) =
     (case fst (onError e ''Internal authentication error'' w1) of
        Returned v \<Rightarrow> Inr v | Thrown err \<Rightarrow> Inl err | Rejected err \<Rightarrow> Inl err)"
  by (auto simp: send_def call_onError_def split: prod.splits outcome.splits)

lemma dispatch_with_token:
  assumes "verified v" and "newCookie v = Some token" and "token \<noteq> []"
  shows "\<exists>t rest w1. dispatch e this v (tr, w) =
            (t, (tr @ SetHeader ''Set-Cookie'' (setCookie token) # rest, w1)) \<and>
           (rest = [] \<or> rest = [OnSuccess (Some token)]) \<and>
           (fst (res_setHeader e ''Set-Cookie'' (setCookie token) w) = Inr ()
              \<longrightarrow> rest = [OnSuccess (Some token)])"
  using assms
  by (auto simp: dispatch_def call_setHeader_def call_onSuccess_def
           split: prod.splits sum.splits outcome.splits)

lemma dispatch_without_token:
  assumes "\<not> verified v \<or> newCookie v = None \<or> newCookie v = Some []"
  shows "\<exists>t rest w1. dispatch e this v (tr, w) = (t, (tr @ rest, w1)) \<and>
           (\<forall>n x. SetHeader n x \<notin> set rest)"
  using assms
  by (auto simp: dispatch_def call_onSuccess_def call_onError_def
           split: prod.splits sum.splits outcome.splits option.splits)

lemma onError_rejects:
  "onError e msg w = (Rejected x, w') \<Longrightarrow> \<exists>msg w. fst (onError e msg w) = Rejected x"
  by (metis fst_conv)

lemma dispatch_finished_exn:
  assumes "dispatch e this v st = (Finished (Inl x), st1)"
  shows "\<exists>msg w. fst (onError e msg w) = Rejected x"
proof (cases "verified v")
  case True
  with assms show ?thesis
    by (auto simp: dispatch_def split: prod.splits sum.splits outcome.splits)
next
  case False
  with assms show ?thesis
    by (auto simp: dispatch_def call_onError_def split: prod.splits outcome.splits
             intro: onError_rejects)
qed

lemma send_try_finished_exn:
  "send_try e this st = (Finished (Inl x), st1) \<Longrightarrow>
   \<exists>msg w. fst (onError e msg w) = Rejected x"
  by (auto simp: send_try_def split: sum.splits prod.splits dest: dispatch_finished_exn)

lemma send_propagates_only_onError:
  assumes "fst (send e this st) = Inl x"
  shows "\<exists>msg w. fst (onError e msg w) = Thrown x \<or> fst (onError e msg w) = Rejected x"
proof -
  obtain t tr1 w1 where run: "send_try e this st = (t, (tr1, w1))"
    by (metis surj_pair)
  show ?thesis
  proof (cases t)
    case (Raised y)
    with run have "fst (send e this st) =
        (case fst (onError e ''Internal authentication error'' w1) of
           Returned v \<Rightarrow> Inr v | Thrown err \<Rightarrow> Inl err | Rejected err \<Rightarrow> Inl err)"
      by (simp add: send_caught)
    with assms show ?thesis
      by (cases "fst (onError e ''Internal authentication error'' w1)") auto
  next
    case (Finished r)
    with run assms have "r = Inl x" by (simp add: send_def)
    with run Finished have "send_try e this st = (Finished (Inl x), (tr1, w1))" by simp
    then have "\<exists>msg w. fst (onError e msg w) = Rejected x"
      by (rule send_try_finished_exn)
    then show ?thesis by blast
  qed
qed


section \<open>The response dispatcher\<close>

lemma no_SetHeader_in_verifier_events:
  "SetHeader n x \<notin> set (if situation_a e a then [Insert True]
           else if \<not> truthy (authHeader a) \<and> truthy (sessionCookie a)
                then [Select (sessionCookie a)] else [])"
  "OnSuccess t \<notin> set (if situation_a e a then [Insert True]
           else if \<not> truthy (authHeader a) \<and> truthy (sessionCookie a)
                then [Select (sessionCookie a)] else [])"
  by simp_all

text \<open>
  Claim C8, amended. For every verdict with \<open>verified = true\<close> and a new token that is
  neither null nor the empty string, \<^verbatim>\<open>send\<close> calls \<^verbatim>\<open>setHeader\<close> exactly once, with the
  name \<^verbatim>\<open>Set-Cookie\<close> and the value
  \<^verbatim>\<open>__Host-session=<token>; Max-Age=2592000; HttpOnly; Secure; Path=/\<close>, before any call of the
  success callback, and calls the success callback with the token right after it when
  \<^verbatim>\<open>setHeader\<close> returns. When the new token is null or empty, or \<open>verified\<close> is false,
  \<^verbatim>\<open>send\<close> never calls \<^verbatim>\<open>setHeader\<close>.
\<close>

theorem cookie_header_set_once:
  assumes "Auth_constructor (api_req this) = Inr a"
    and "fst (isVerified e a (tr, w)) = Inr v"
  shows
    "(\<forall>token. verified v \<and> newCookie v = Some token \<and> token \<noteq> [] \<longrightarrow>
        (\<exists>pre rest.
           fst (snd (send e this (tr, w))) =
             tr @ pre @
               SetHeader ''Set-Cookie''
                 (''__Host-session='' @ token @ ''; Max-Age=2592000; HttpOnly; Secure; Path=/'')
               # rest \<and>
           (\<forall>n x. SetHeader n x \<notin> set pre) \<and> (\<forall>t. OnSuccess t \<notin> set pre) \<and>
           (\<forall>n x. SetHeader n x \<notin> set rest) \<and>
           (fst (res_setHeader e ''Set-Cookie''
                  (''__Host-session='' @ token @ ''; Max-Age=2592000; HttpOnly; Secure; Path=/'')
                  (snd (snd (isVerified e a (tr, w))))) = Inr ()
              \<longrightarrow> (\<exists>rest'. rest = OnSuccess (Some token) # rest')))) \<and>
     (\<not> verified v \<or> newCookie v = None \<or> newCookie v = Some [] \<longrightarrow>
        (\<exists>new. fst (snd (send e this (tr, w))) = tr @ new \<and>
               (\<forall>n x. SetHeader n x \<notin> set new)))"
proof -
  let ?pre = "if situation_a e a then [Insert True]
              else if \<not> truthy (authHeader a) \<and> truthy (sessionCookie a)
                   then [Select (sessionCookie a)] else []"
  obtain w1 where ver: "isVerified e a (tr, w) = (Inr v, (tr @ ?pre, w1))"
    using assms(2) isVerified_events [of e a tr w]
    by (cases "isVerified e a (tr, w)") auto
  have try_eq: "send_try e this (tr, w) = dispatch e this v (tr @ ?pre, w1)"
    using assms(1) ver by (rule send_try_verdict)
  have pre: "\<forall>n x. SetHeader n x \<notin> set ?pre" "\<forall>t. OnSuccess t \<notin> set ?pre"
    by simp_all
  have with_token: "\<exists>pre rest.
           fst (snd (send e this (tr, w))) =
             tr @ pre @ SetHeader ''Set-Cookie'' (setCookie token) # rest \<and>
           (\<forall>n x. SetHeader n x \<notin> set pre) \<and> (\<forall>t. OnSuccess t \<notin> set pre) \<and>
           (\<forall>n x. SetHeader n x \<notin> set rest) \<and>
           (fst (res_setHeader e ''Set-Cookie'' (setCookie token)
                  (snd (snd (isVerified e a (tr, w))))) = Inr ()
              \<longrightarrow> (\<exists>rest'. rest = OnSuccess (Some token) # rest'))"
    if tok: "verified v" "newCookie v = Some token" "token \<noteq> []" for token
  proof -
    from dispatch_with_token [OF tok, of e this "tr @ ?pre" w1]
    obtain t rest w2 where
      d: "dispatch e this v (tr @ ?pre, w1) =
            (t, ((tr @ ?pre) @ SetHeader ''Set-Cookie'' (setCookie token) # rest, w2))"
      and r: "rest = [] \<or> rest = [OnSuccess (Some token)]"
      and ok: "fst (res_setHeader e ''Set-Cookie'' (setCookie token) w1) = Inr ()
                 \<longrightarrow> rest = [OnSuccess (Some token)]"
      by blast
    let ?tail = "rest @ (case t of Raised x \<Rightarrow> [OnError ''Internal authentication error'']
                                 | Finished r \<Rightarrow> [])"
    from try_eq d have
      "fst (snd (send e this (tr, w))) =
         ((tr @ ?pre) @ SetHeader ''Set-Cookie'' (setCookie token) # rest) @
           (case t of Raised x \<Rightarrow> [OnError ''Internal authentication error'']
                    | Finished r \<Rightarrow> [])"
      by (simp only: send_after_try)
    then have ev: "fst (snd (send e this (tr, w))) =
         tr @ ?pre @ SetHeader ''Set-Cookie'' (setCookie token) # ?tail"
      by simp
    have no: "\<forall>n x. SetHeader n x \<notin> set ?tail"
      using r by (auto split: tried.splits)
    have first: "fst (res_setHeader e ''Set-Cookie'' (setCookie token)
                  (snd (snd (isVerified e a (tr, w))))) = Inr ()
              \<longrightarrow> (\<exists>rest'. ?tail = OnSuccess (Some token) # rest')"
      using ok ver by auto
    from ev pre no first show ?thesis by blast
  qed
  have without_token: "\<exists>new. fst (snd (send e this (tr, w))) = tr @ new \<and>
               (\<forall>n x. SetHeader n x \<notin> set new)"
    if none: "\<not> verified v \<or> newCookie v = None \<or> newCookie v = Some []"
  proof -
    from dispatch_without_token [OF none, of e this "tr @ ?pre" w1]
    obtain t rest w2 where
      d: "dispatch e this v (tr @ ?pre, w1) = (t, ((tr @ ?pre) @ rest, w2))"
      and r: "\<forall>n x. SetHeader n x \<notin> set rest"
      by blast
    from try_eq d have
      "fst (snd (send e this (tr, w))) =
         ((tr @ ?pre) @ rest) @
           (case t of Raised x \<Rightarrow> [OnError ''Internal authentication error'']
                    | Finished r \<Rightarrow> [])"
      by (simp only: send_after_try)
    then have "fst (snd (send e this (tr, w))) =
         tr @ (?pre @ rest @
           (case t of Raised x \<Rightarrow> [OnError ''Internal authentication error'']
                    | Finished r \<Rightarrow> []))"
      by simp
    moreover have "\<forall>n x. SetHeader n x \<notin> set (?pre @ rest @
           (case t of Raised x \<Rightarrow> [OnError ''Internal authentication error'']
                    | Finished r \<Rightarrow> []))"
      using r by (auto split: tried.splits)
    ultimately show ?thesis by blast
  qed
  from with_token without_token show ?thesis
    unfolding setCookie_text by blast
qed

text \<open>
  Claim C7, amended. An exception raised while the verdict is computed (by the constructor
  of Auth or by \<^verbatim>\<open>isVerified\<close>) is caught: the next and last call of \<^verbatim>\<open>send\<close> is the
  error callback with the reason "Internal authentication error", and \<^verbatim>\<open>send\<close> settles as
  that call does. An exception leaves \<^verbatim>\<open>send\<close> only when the error callback itself threw
  or rejected with it.
\<close>

theorem verdict_exception_reported:
  "(\<forall>x. Auth_constructor (api_req this) = Inl x \<longrightarrow>
      fst (snd (send e this (tr, w))) = tr @ [OnError ''Internal authentication error''] \<and>
      fst (send e this (tr, w)) =
        (case fst (onError e ''Internal authentication error'' w) of
           Returned v \<Rightarrow> Inr v | Thrown err \<Rightarrow> Inl err | Rejected err \<Rightarrow> Inl err)) \<and>
   (\<forall>a x tr1 w1. Auth_constructor (api_req this) = Inr a \<longrightarrow>
      isVerified e a (tr, w) = (Inl x, (tr1, w1)) \<longrightarrow>
      fst (snd (send e this (tr, w))) = tr1 @ [OnError ''Internal authentication error''] \<and>
      fst (send e this (tr, w)) =
        (case fst (onError e ''Internal authentication error'' w1) of
           Returned v \<Rightarrow> Inr v | Thrown err \<Rightarrow> Inl err | Rejected err \<Rightarrow> Inl err)) \<and>
   (\<forall>x. fst (send e this (tr, w)) = Inl x \<longrightarrow>
      (\<exists>msg w'. fst (onError e msg w') = Thrown x \<or> fst (onError e msg w') = Rejected x))"
proof (intro conjI allI impI)
  fix x
  assume "Auth_constructor (api_req this) = Inl x"
  then have r: "send_try e this (tr, w) = (Raised x, (tr, w))"
    by (rule send_try_raised(1))
  from send_after_try [OF r]
  show "fst (snd (send e this (tr, w))) = tr @ [OnError ''Internal authentication error'']"
    by simp
  from r show "fst (send e this (tr, w)) =
        (case fst (onError e ''Internal authentication error'' w) of
           Returned v \<Rightarrow> Inr v | Thrown err \<Rightarrow> Inl err | Rejected err \<Rightarrow> Inl err)"
    by (rule send_caught)
next
  fix a x tr1 w1
  assume "Auth_constructor (api_req this) = Inr a"
    and "isVerified e a (tr, w) = (Inl x, (tr1, w1))"
  then have r: "send_try e this (tr, w) = (Raised x, (tr1, w1))"
    by (rule send_try_raised(2))
  from send_after_try [OF r]
  show "fst (snd (send e this (tr, w))) = tr1 @ [OnError ''Internal authentication error'']"
    by simp
  from r show "fst (send e this (tr, w)) =
        (case fst (onError e ''Internal authentication error'' w1) of
           Returned v \<Rightarrow> Inr v | Thrown err \<Rightarrow> Inl err | Rejected err \<Rightarrow> Inl err)"
    by (rule send_caught)
next
  fix x
  assume "fst (send e this (tr, w)) = Inl x"
  then show "\<exists>msg w'. fst (onError e msg w') = Thrown x \<or> fst (onError e msg w') = Rejected x"
    by (rule send_propagates_only_onError)
qed


section \<open>Runs of the concrete environment\<close>

lemma base64_wrong: "base64_ascii ''d3Jvbmc='' = Inr ''wrong''"
  by (simp add: base64_ascii_def base64_alphabet_def List.map_filter_def byte_char_def)

lemma header_auth_fields:
  "authHeader (header_auth s) = JStr s" "sessionCookie (header_auth s) = JNull"
  by (simp_all add: header_auth_def)

lemma cookie_auth_fields:
  "authHeader (cookie_auth c) = JNull" "sessionCookie (cookie_auth c) = JStr c"
  by (simp_all add: cookie_auth_def)

lemma memory_env_fields:
  "data_password memory_env = Some ''secret''"
  "buffer_base64 memory_env = base64_ascii"
  "select_eq memory_env = memory_select"
  "insert_select memory_env = memory_insert"
  by (simp_all add: memory_env_def)

lemma secret_header_matches: "situation_a memory_env (header_auth ''Basic c2VjcmV0'')"
  by (simp add: situation_a_def header_auth_fields memory_env_fields base64_secret)

lemma memory_created_record:
  "created_record memory_env empty_world =
     Some \<lparr> record_id = ''1'', cookie_string = ''token-1'', is_verified = True \<rparr>"
  by (simp add: created_record_def memory_env_fields memory_insert_def empty_world_def
        show_nat.simps digit_char_def Let_def)

lemma memory_lookup:
  "fst (select_eq memory_env (JStr c) (world_with rs)) =
     DbResult None (Some (filter (\<lambda>r. cookie_string r = c) rs))"
  by (simp add: memory_env_fields memory_select_def world_with_def)


lemma cookie_request_auth:
  "c \<noteq> [] \<Longrightarrow> Auth_constructor (cookie_request c) = Inr (cookie_auth c)"
  by (simp add: Auth_constructor_def cookie_request_def cookie_auth_def request_with_def
        opt_chain_def js_or_def)

lemma ApiResponse_constructor_req:
  "ApiResponse_constructor rq rs = Inr this \<Longrightarrow> truthy (api_req this) \<and> api_req this = rq"
  by (auto simp: ApiResponse_constructor_def split: if_splits)

lemma header_request_auth:
  "s \<noteq> [] \<Longrightarrow> Auth_constructor (header_request s) = Inr (header_auth s)"
  by (simp add: Auth_constructor_def header_request_def header_auth_def request_with_def
        opt_chain_def js_or_def)

lemma memory_verdict:
  "fst (isVerified memory_env (header_auth ''Basic c2VjcmV0'') ([], empty_world)) =
     Inr \<lparr> verified = True, reason = ''Authorization header verified'',
            newCookie = Some ''token-1'' \<rparr>"
proof -
  have p: "take 6 ''Basic c2VjcmV0'' = ''Basic ''" by simp
  from isVerified_match [OF header_auth_fields(1) p secret_header_matches, of "[]" empty_world]
  show ?thesis by (simp add: memory_created_record)
qed


theorem token_lookup_verdicts_witness:
  "fst (isVerified throwing_select_env (cookie_auth ''token-1'')
          ([], world_with [issued_row, pending_row])) =
     Inr \<lparr> verified = False, reason = ''Session cookie not found'', newCookie = None \<rparr> \<and>
   fst (isVerified memory_env (cookie_auth ''abc123'')
          ([], world_with [issued_row, pending_row])) =
     Inr \<lparr> verified = False, reason = ''Session cookie not found'', newCookie = None \<rparr> \<and>
   fst (isVerified memory_env (cookie_auth ''token-2'')
          ([], world_with [issued_row, pending_row])) =
     Inr \<lparr> verified = False, reason = ''Session cookie is not verified'', newCookie = None \<rparr> \<and>
   fst (isVerified memory_env (cookie_auth ''token-1'')
          ([], world_with [issued_row, pending_row])) =
     Inr \<lparr> verified = True, reason = ''Session cookie verified'', newCookie = None \<rparr>"
proof -
  have h: "\<not> truthy (authHeader (cookie_auth c))" for c
    by (simp add: cookie_auth_fields)
  have k: "truthy (sessionCookie (cookie_auth ''token-1''))"
          "truthy (sessionCookie (cookie_auth ''token-2''))"
          "truthy (sessionCookie (cookie_auth ''abc123''))"
    by (simp_all add: cookie_auth_fields)
  have t: "fst (select_eq throwing_select_env (sessionCookie (cookie_auth ''token-1''))
                  (world_with [issued_row, pending_row])) = DbThrows (Error ''fetch failed'')"
    by (simp add: throwing_select_env_def memory_env_def)
  have m: "fst (select_eq memory_env (sessionCookie (cookie_auth ''abc123''))
                  (world_with [issued_row, pending_row])) = DbResult None (Some [])"
          "fst (select_eq memory_env (sessionCookie (cookie_auth ''token-2''))
                  (world_with [issued_row, pending_row])) = DbResult None (Some [pending_row])"
          "fst (select_eq memory_env (sessionCookie (cookie_auth ''token-1''))
                  (world_with [issued_row, pending_row])) = DbResult None (Some [issued_row])"
    by (simp_all add: cookie_auth_fields memory_lookup issued_row_def pending_row_def)
  have f: "is_verified issued_row" "\<not> is_verified pending_row"
    by (simp_all add: issued_row_def pending_row_def)
  show ?thesis
    using
      token_lookup_verdicts [OF h k(1), where e = throwing_select_env and tr = "[]"
        and w = "world_with [issued_row, pending_row]"]
      token_lookup_verdicts [OF h k(3), where e = memory_env and tr = "[]"
        and w = "world_with [issued_row, pending_row]"]
      token_lookup_verdicts [OF h k(2), where e = memory_env and tr = "[]"
        and w = "world_with [issued_row, pending_row]"]
      token_lookup_verdicts [OF h k(1), where e = memory_env and tr = "[]"
        and w = "world_with [issued_row, pending_row]"]
    by (simp add: t m f)
qed

theorem creation_failure_keeps_verdict_witness:
  "situation_a failing_insert_env (header_auth ''Basic c2VjcmV0'') \<and>
   fst (insert_select failing_insert_env True empty_world) =
     DbResult (Some ''insert failed'') None \<and>
   fst (isVerified failing_insert_env (header_auth ''Basic c2VjcmV0'') ([], empty_world)) =
     Inr \<lparr> verified = True, reason = ''Authorization header verified'', newCookie = None \<rparr> \<and>
   (\<exists>r rs. fst (insert_select memory_env True empty_world) = DbResult None (Some (r # rs)) \<and>
            cookie_string r = ''token-1'') \<and>
   fst (isVerified memory_env (header_auth ''Basic c2VjcmV0'') ([], empty_world)) =
     Inr \<lparr> verified = True, reason = ''Authorization header verified'',
            newCookie = Some ''token-1'' \<rparr>"
proof -
  have a: "situation_a failing_insert_env (header_auth ''Basic c2VjcmV0'')"
    by (simp add: situation_a_def header_auth_fields failing_insert_env_def memory_env_def
          base64_secret)
  have c: "fst (insert_select failing_insert_env True empty_world) =
             DbResult (Some ''insert failed'') None"
    by (simp add: failing_insert_env_def memory_env_def)
  have i: "fst (insert_select memory_env True empty_world) =
             DbResult None
               (Some (\<lparr> record_id = ''1'', cookie_string = ''token-1'', is_verified = True \<rparr>
                      # []))"
    by (simp add: memory_env_fields memory_insert_def empty_world_def show_nat.simps
          digit_char_def Let_def)
  have n: "newCookie \<lparr> verified = True, reason = ''Authorization header verified'',
                        newCookie = Some ''token-1'' \<rparr> = Some ''token-1''"
    by simp
  from creation_failure_keeps_verdict [where e = failing_insert_env
      and a = "header_auth ''Basic c2VjcmV0''" and tr = "[]" and w = empty_world] a c
  have first: "fst (isVerified failing_insert_env (header_auth ''Basic c2VjcmV0'')
                      ([], empty_world)) =
     Inr \<lparr> verified = True, reason = ''Authorization header verified'', newCookie = None \<rparr>"
    by simp
  from creation_failure_keeps_verdict [where e = memory_env
      and a = "header_auth ''Basic c2VjcmV0''" and tr = "[]" and w = empty_world,
      THEN conjunct2, THEN conjunct2, rule_format, OF conjI [OF secret_header_matches i]]
  have third: "fst (isVerified memory_env (header_auth ''Basic c2VjcmV0'') ([], empty_world)) =
     Inr \<lparr> verified = True, reason = ''Authorization header verified'',
            newCookie = Some ''token-1'' \<rparr>"
    by simp
  from creation_failure_keeps_verdict [where e = memory_env
      and a = "header_auth ''Basic c2VjcmV0''" and tr = "[]" and w = empty_world,
      THEN conjunct2, THEN conjunct1, rule_format, OF conjI [OF third n]]
  have second: "\<exists>r rs. fst (insert_select memory_env True empty_world) =
                          DbResult None (Some (r # rs)) \<and> cookie_string r = ''token-1''"
    by blast
  from a c first second third show ?thesis by blast
qed

theorem password_mismatch_rejected_witness:
  "isVerified memory_env (header_auth ''Basic d3Jvbmc='') ([], empty_world) =
     (Inr \<lparr> verified = False, reason = ''Password does not match'', newCookie = None \<rparr>,
      ([], empty_world)) \<and>
   isVerified failing_decoder_env (header_auth ''Basic c2VjcmV0'') ([], empty_world) =
     (Inr \<lparr> verified = False, reason = ''Password does not match'', newCookie = None \<rparr>,
      ([], empty_world))"
proof -
  have p: "startsWith ''Basic d3Jvbmc='' ''Basic ''" "startsWith ''Basic c2VjcmV0'' ''Basic ''"
    by (simp_all add: startsWith_def)
  have d: "\<forall>p. buffer_base64 memory_env (drop 6 ''Basic d3Jvbmc='') = Inr p
             \<longrightarrow> data_password memory_env \<noteq> Some p"
    by (simp add: memory_env_fields base64_wrong)
  have f: "\<forall>p. buffer_base64 failing_decoder_env (drop 6 ''Basic c2VjcmV0'') = Inr p
             \<longrightarrow> data_password failing_decoder_env \<noteq> Some p"
    by (simp add: failing_decoder_env_def memory_env_def)
  from password_mismatch_rejected [OF header_auth_fields(1) p(1) d]
       password_mismatch_rejected [OF header_auth_fields(1) p(2) f]
  show ?thesis by simp
qed

theorem invalid_pattern_rejected_witness:
  "isVerified throwing_select_env (header_auth ''Bearer c2VjcmV0'')
     ([], world_with [issued_row]) =
     (Inr \<lparr> verified = False, reason = ''Invalid Authorization pattern'', newCookie = None \<rparr>,
      ([], world_with [issued_row]))"
proof -
  have "''Bearer c2VjcmV0'' \<noteq> []" and "\<not> startsWith ''Bearer c2VjcmV0'' ''Basic ''"
    by (simp_all add: startsWith_def)
  with header_auth_fields(1) show ?thesis
    by (rule invalid_pattern_rejected)
qed

theorem unset_password_never_matches_witness:
  "data_password no_password_env = None \<and>
   authHeaderPasswordMatch no_password_env (header_auth ''Basic c2VjcmV0'') = Inr False \<and>
   (\<exists>new. fst (snd (isVerified no_password_env (header_auth ''Basic c2VjcmV0'')
                       ([], empty_world))) = [] @ new \<and>
          (\<forall>b. Insert b \<notin> set new))"
proof -
  have n: "data_password no_password_env = None"
    by (simp add: no_password_env_def memory_env_def)
  from unset_password_never_matches [OF n, where a = "header_auth ''Basic c2VjcmV0''"
      and tr = "[]" and w = empty_world] n
  show ?thesis by (simp add: header_auth_fields)
qed

text \<open>
  A value that is not an object reaches the constructor of Auth: the constructor of
  ApiResponse tests only that \<^verbatim>\<open>req\<close> is truthy. On the number 5, and on null, the
  constructor of Auth throws.
\<close>

theorem extractor_raises_counterexample:
  "ApiResponse_constructor (JNum 5) (JObj []) = Inr \<lparr> api_req = JNum 5, api_res = JObj [] \<rparr> \<and>
   Auth_constructor (JNum 5) =
     Inl (Error ''Auth constructor requires a valid request object'') \<and>
   Auth_constructor JNull =
     Inl (Error ''Auth constructor requires a valid request object'')"
  by (simp add: ApiResponse_constructor_def Auth_constructor_def)

theorem extractor_raises_only_on_non_object_witness:
  "(\<exists>a. Auth_constructor (header_request ''Basic c2VjcmV0'') = Inr a \<and>
        authHeader a = JStr ''Basic c2VjcmV0'' \<and> sessionCookie a = JNull) \<and>
   Auth_constructor (JStr ''request'') =
     Inl (Error ''Auth constructor requires a valid request object'') \<and>
   send_try memory_env \<lparr> api_req = JStr ''request'', api_res = JObj [] \<rparr> ([], empty_world) =
     (Raised (Error ''Auth constructor requires a valid request object''), ([], empty_world))"
proof -
  let ?rq = "header_request ''Basic c2VjcmV0''"
  have o: "truthy ?rq \<and> typeof ?rq = ''object''"
    by (simp add: header_request_def request_with_def)
  have h: "opt_chain (get_prop ?rq ''headers'') ''authorization'' = JStr ''Basic c2VjcmV0''"
          "opt_chain (get_prop ?rq ''cookies'') ''__Host-session'' = JUndefined"
    by (simp_all add: header_request_def request_with_def opt_chain_def)
  have n: "\<not> (truthy (JStr ''request'') \<and> typeof (JStr ''request'') = ''object'')"
    by simp
  note t = extractor_raises_only_on_non_object [where rq = ?rq and e = memory_env
             and rs = "JObj []" and st = "([], empty_world)"]
  note u = extractor_raises_only_on_non_object [where rq = "JStr ''request''"
             and e = memory_env and rs = "JObj []" and st = "([], empty_world)"]
  from t [THEN conjunct1, rule_format, OF o] obtain a where a: "Auth_constructor ?rq = Inr a"
    by blast
  from t [THEN conjunct2, THEN conjunct2, THEN conjunct1, rule_format, OF a]
  have "authHeader a = JStr ''Basic c2VjcmV0'' \<and> sessionCookie a = JNull"
    by (simp add: h)
  with a have first: "\<exists>a. Auth_constructor ?rq = Inr a \<and>
        authHeader a = JStr ''Basic c2VjcmV0'' \<and> sessionCookie a = JNull"
    by blast
  from u [THEN conjunct2, THEN conjunct1, rule_format, OF n]
  have second: "Auth_constructor (JStr ''request'') =
     Inl (Error ''Auth constructor requires a valid request object'')" .
  from u [THEN conjunct2, THEN conjunct2, THEN conjunct2, THEN conjunct1, rule_format, OF second]
  have third: "send_try memory_env \<lparr> api_req = JStr ''request'', api_res = JObj [] \<rparr>
                 ([], empty_world) =
     (Raised (Error ''Auth constructor requires a valid request object''), ([], empty_world))" .
  from first second third show ?thesis by blast
qed

text \<open>Unfolding everything, to run \<^verbatim>\<open>send\<close> on a concrete request.\<close>

lemmas send_unfold =
  send_def send_try_def dispatch_def isVerified_def authHeaderPasswordMatch_def
  createCookie_def isCookieVerified_def hasAuthHeader_def hasCookie_def
  supabase_select_def supabase_insert_def call_setHeader_def call_onSuccess_def
  call_onError_def Auth_constructor_def opt_chain_def js_or_def request_with_def
  header_request_def cookie_request_def numeric_header_request_def startsWith_def

lemma send_throwing_onError:
  "send throwing_onError_env \<lparr> api_req = request_with [] [], api_res = JObj [] \<rparr>
     ([], empty_world) =
     (Inl (Error ''write after end''),
      ([OnError ''No Authorization header or session cookie found'',
        OnError ''Internal authentication error''], empty_world))"
  by (simp add: send_unfold throwing_onError_env_def memory_env_def)

lemma send_throwing_onError_numeric:
  "send throwing_onError_env \<lparr> api_req = numeric_header_request, api_res = JObj [] \<rparr>
     ([], empty_world) =
     (Inl (Error ''write after end''),
      ([OnError ''Internal authentication error''], empty_world))"
  by (simp add: send_unfold throwing_onError_env_def memory_env_def)

lemma numeric_header_raises:
  "Auth_constructor numeric_header_request =
     Inr \<lparr> req = numeric_header_request, authHeader = JNum 5, sessionCookie = JNull \<rparr>"
  "isVerified e \<lparr> req = numeric_header_request, authHeader = JNum 5, sessionCookie = JNull \<rparr> st =
     (Inl (TypeError ''this.#authHeader.startsWith is not a function''), st)"
  by (simp_all add: Auth_constructor_def numeric_header_request_def request_with_def
        opt_chain_def js_or_def isVerified_def hasAuthHeader_def)

text \<open>
  The error callback may itself fail. With a callback that throws, \<^verbatim>\<open>send\<close> lets the
  exception through: after a TypeError of \<^verbatim>\<open>isVerified\<close> (an authorization header that is
  a number), where the \<^verbatim>\<open>catch\<close> calls the callback; and for a plain request without
  credentials, where the callback is called twice, inside the \<^verbatim>\<open>try\<close> and again in the
  \<^verbatim>\<open>catch\<close>.
\<close>

theorem send_raises_counterexample:
  "fst (isVerified throwing_onError_env
          \<lparr> req = numeric_header_request, authHeader = JNum 5, sessionCookie = JNull \<rparr>
          ([], empty_world)) =
     Inl (TypeError ''this.#authHeader.startsWith is not a function'') \<and>
   send throwing_onError_env \<lparr> api_req = numeric_header_request, api_res = JObj [] \<rparr>
     ([], empty_world) =
     (Inl (Error ''write after end''),
      ([OnError ''Internal authentication error''], empty_world)) \<and>
   send throwing_onError_env \<lparr> api_req = request_with [] [], api_res = JObj [] \<rparr>
     ([], empty_world) =
     (Inl (Error ''write after end''),
      ([OnError ''No Authorization header or session cookie found'',
        OnError ''Internal authentication error''], empty_world))"
  by (simp add: numeric_header_raises(2) send_throwing_onError send_throwing_onError_numeric)

theorem verdict_exception_reported_witness:
  "fst (snd (send memory_env \<lparr> api_req = JNum 5, api_res = JObj [] \<rparr> ([], empty_world))) =
     [OnError ''Internal authentication error''] \<and>
   fst (send memory_env \<lparr> api_req = JNum 5, api_res = JObj [] \<rparr> ([], empty_world)) =
     Inr JUndefined \<and>
   fst (snd (send memory_env \<lparr> api_req = numeric_header_request, api_res = JObj [] \<rparr>
               ([], empty_world))) =
     [OnError ''Internal authentication error''] \<and>
   (\<exists>msg w'. fst (onError throwing_onError_env msg w') = Thrown (Error ''write after end'') \<or>
             fst (onError throwing_onError_env msg w') = Rejected (Error ''write after end''))"
proof -
  have c: "Auth_constructor (api_req \<lparr> api_req = JNum 5, api_res = JObj [] \<rparr>) =
             Inl (Error ''Auth constructor requires a valid request object'')"
    by (simp add: Auth_constructor_def)
  have n: "Auth_constructor (api_req \<lparr> api_req = numeric_header_request, api_res = JObj [] \<rparr>) =
             Inr \<lparr> req = numeric_header_request, authHeader = JNum 5, sessionCookie = JNull \<rparr>"
    by (simp add: numeric_header_raises(1))
  have t: "fst (send throwing_onError_env \<lparr> api_req = request_with [] [], api_res = JObj [] \<rparr>
                  ([], empty_world)) = Inl (Error ''write after end'')"
    by (simp add: send_throwing_onError)
  have r: "fst (onError memory_env ''Internal authentication error'' empty_world) =
             Returned JUndefined"
    by (simp add: memory_env_def)
  from
    verdict_exception_reported [where e = memory_env
      and this = "\<lparr> api_req = JNum 5, api_res = JObj [] \<rparr>" and tr = "[]" and w = empty_world,
      THEN conjunct1, rule_format, OF c]
    verdict_exception_reported [where e = memory_env
      and this = "\<lparr> api_req = numeric_header_request, api_res = JObj [] \<rparr>"
      and tr = "[]" and w = empty_world,
      THEN conjunct2, THEN conjunct1, rule_format, OF n numeric_header_raises(2)]
    verdict_exception_reported [where e = throwing_onError_env
      and this = "\<lparr> api_req = request_with [] [], api_res = JObj [] \<rparr>"
      and tr = "[]" and w = empty_world,
      THEN conjunct2, THEN conjunct2, rule_format, OF t]
  show ?thesis by (simp add: r)
qed

lemma empty_token_verdict:
  "fst (isVerified empty_token_env (header_auth ''Basic c2VjcmV0'') ([], empty_world)) =
     Inr \<lparr> verified = True, reason = ''Authorization header verified'', newCookie = Some [] \<rparr>"
proof -
  have a: "situation_a empty_token_env (header_auth ''Basic c2VjcmV0'')"
    by (simp add: situation_a_def header_auth_fields empty_token_env_def memory_env_def
          base64_secret)
  have c: "created_record empty_token_env empty_world =
             Some \<lparr> record_id = ''1'', cookie_string = [], is_verified = True \<rparr>"
    by (simp add: created_record_def empty_token_env_def memory_env_def)
  have p: "take 6 ''Basic c2VjcmV0'' = ''Basic ''" by simp
  from isVerified_match [OF header_auth_fields(1) p a, of "[]" empty_world] c
  show ?thesis by simp
qed

lemma empty_token_send:
  "send empty_token_env \<lparr> api_req = header_request ''Basic c2VjcmV0'', api_res = JObj [] \<rparr>
     ([], empty_world) =
     (Inr JUndefined,
      ([Insert True, OnSuccess (Some [])],
       \<lparr> user_cookies = [], response_headers = [], response_status = Some 200 \<rparr>))"
  by (simp add: send_unfold empty_token_env_def memory_env_def base64_secret empty_world_def)

text \<open>
  A store that hands out the empty string as the token: the verdict is verified, its new
  token is not null, and \<^verbatim>\<open>send\<close> sets no header, since the empty string is falsy.
\<close>

theorem empty_token_no_header_counterexample:
  "fst (isVerified empty_token_env (header_auth ''Basic c2VjcmV0'') ([], empty_world)) =
     Inr \<lparr> verified = True, reason = ''Authorization header verified'', newCookie = Some [] \<rparr> \<and>
   send empty_token_env \<lparr> api_req = header_request ''Basic c2VjcmV0'', api_res = JObj [] \<rparr>
     ([], empty_world) =
     (Inr JUndefined,
      ([Insert True, OnSuccess (Some [])],
       \<lparr> user_cookies = [], response_headers = [], response_status = Some 200 \<rparr>))"
  by (simp add: empty_token_verdict empty_token_send)

theorem cookie_header_set_once_witness:
  "(\<exists>pre rest.
      fst (snd (send memory_env
                  \<lparr> api_req = header_request ''Basic c2VjcmV0'', api_res = JObj [] \<rparr>
                  ([], empty_world))) =
        pre @ SetHeader ''Set-Cookie''
                ''__Host-session=token-1; Max-Age=2592000; HttpOnly; Secure; Path=/''
              # OnSuccess (Some ''token-1'') # rest \<and>
      (\<forall>n x. SetHeader n x \<notin> set pre) \<and> (\<forall>n x. SetHeader n x \<notin> set rest)) \<and>
   (\<forall>n x. SetHeader n x \<notin>
      set (fst (snd (send empty_token_env
                       \<lparr> api_req = header_request ''Basic c2VjcmV0'', api_res = JObj [] \<rparr>
                       ([], empty_world)))))"
proof -
  have c: "Auth_constructor
             (api_req \<lparr> api_req = header_request ''Basic c2VjcmV0'', api_res = JObj [] \<rparr>) =
           Inr (header_auth ''Basic c2VjcmV0'')"
    by (simp add: header_request_auth)
  have s: "fst (res_setHeader memory_env n x w) = Inr ()" for n x w
    by (simp add: memory_env_def memory_setHeader_def)
  have prem: "verified \<lparr> verified = True, reason = ''Authorization header verified'',
                           newCookie = Some ''token-1'' \<rparr> \<and>
              newCookie \<lparr> verified = True, reason = ''Authorization header verified'',
                           newCookie = Some ''token-1'' \<rparr> = Some ''token-1'' \<and>
              ''token-1'' \<noteq> []"
    by simp
  from cookie_header_set_once [OF c memory_verdict, THEN conjunct1, rule_format, OF prem]
  obtain pre rest where
    ev: "fst (snd (send memory_env
                  \<lparr> api_req = header_request ''Basic c2VjcmV0'', api_res = JObj [] \<rparr>
                  ([], empty_world))) =
        [] @ pre @ SetHeader ''Set-Cookie''
                (''__Host-session='' @ ''token-1'' @ ''; Max-Age=2592000; HttpOnly; Secure; Path=/'')
              # rest"
    and np: "\<forall>n x. SetHeader n x \<notin> set pre"
    and nr: "\<forall>n x. SetHeader n x \<notin> set rest"
    and ok: "fst (res_setHeader memory_env ''Set-Cookie''
                (''__Host-session='' @ ''token-1'' @ ''; Max-Age=2592000; HttpOnly; Secure; Path=/'')
                (snd (snd (isVerified memory_env (header_auth ''Basic c2VjcmV0'')
                             ([], empty_world))))) = Inr ()
             \<longrightarrow> (\<exists>rest'. rest = OnSuccess (Some ''token-1'') # rest')"
    by blast
  from ok s obtain rest' where r: "rest = OnSuccess (Some ''token-1'') # rest'"
    by blast
  from nr r have nr': "\<forall>n x. SetHeader n x \<notin> set rest'"
    by simp
  from ev r have "fst (snd (send memory_env
                  \<lparr> api_req = header_request ''Basic c2VjcmV0'', api_res = JObj [] \<rparr>
                  ([], empty_world))) =
        pre @ SetHeader ''Set-Cookie''
                ''__Host-session=token-1; Max-Age=2592000; HttpOnly; Secure; Path=/''
              # OnSuccess (Some ''token-1'') # rest'"
    by simp
  with np nr' have first: "\<exists>pre rest.
      fst (snd (send memory_env
                  \<lparr> api_req = header_request ''Basic c2VjcmV0'', api_res = JObj [] \<rparr>
                  ([], empty_world))) =
        pre @ SetHeader ''Set-Cookie''
                ''__Host-session=token-1; Max-Age=2592000; HttpOnly; Secure; Path=/''
              # OnSuccess (Some ''token-1'') # rest \<and>
      (\<forall>n x. SetHeader n x \<notin> set pre) \<and> (\<forall>n x. SetHeader n x \<notin> set rest)"
    by blast
  have none: "\<not> verified \<lparr> verified = True, reason = ''Authorization header verified'',
                                newCookie = Some [] \<rparr> \<or>
              newCookie \<lparr> verified = True, reason = ''Authorization header verified'',
                           newCookie = Some [] \<rparr> = None \<or>
              newCookie \<lparr> verified = True, reason = ''Authorization header verified'',
                           newCookie = Some [] \<rparr> = Some []"
    by simp
  from cookie_header_set_once [OF c empty_token_verdict, THEN conjunct2, rule_format, OF none]
  have second: "\<forall>n x. SetHeader n x \<notin>
      set (fst (snd (send empty_token_env
                       \<lparr> api_req = header_request ''Basic c2VjcmV0'', api_res = JObj [] \<rparr>
                       ([], empty_world))))"
    by auto
  from first second show ?thesis by blast
qed

end
